theory Spec2Isabelle
  imports Main "HOL-Library.Word"
begin

section \<open>JavaScript strings and numbers\<close>

text \<open>
  A JavaScript string is a sequence of UTF-16 code units; \<open>length\<close>, \<open>substring\<close>,
  \<open>includes\<close> and the regular expressions of the service all count code units.
  \<open>str\<close> turns an ASCII literal of the source into such a sequence.
\<close>

type_synonym jsstring = "16 word list"

definition str :: "string \<Rightarrow> jsstring" where
  "str s = map (\<lambda>c. of_nat (of_char c)) s"

text \<open>\<open>s.startsWith(p)\<close>, \<open>s.endsWith(p)\<close> and \<open>s.includes(p)\<close>.\<close>

definition starts_with :: "jsstring \<Rightarrow> jsstring \<Rightarrow> bool" where
  "starts_with s p = (take (length p) s = p)"

definition ends_with :: "jsstring \<Rightarrow> jsstring \<Rightarrow> bool" where
  "ends_with s p = (length p \<le> length s \<and> drop (length s - length p) s = p)"

fun str_includes :: "jsstring \<Rightarrow> jsstring \<Rightarrow> bool" where
  "str_includes [] p = (p = [])"
| "str_includes (c # cs) p = (starts_with (c # cs) p \<or> str_includes cs p)"

text \<open>\<open>a || b\<close> where \<open>a\<close> is a string or \<open>undefined\<close>: the empty string is falsy.\<close>

fun or_str :: "jsstring option \<Rightarrow> jsstring \<Rightarrow> jsstring" where
  "or_str None d = d"
| "or_str (Some s) d = (if s = [] then d else s)"

text \<open>
  White space as \<open>String.prototype.trim\<close>, \<open>parseInt\<close> and the class \<open>\s\<close> read it:
  TAB, LF, VT, FF, CR, space, NBSP, U+1680, U+2000 to U+200A, LS, PS, U+202F, U+205F,
  U+3000 and the byte order mark.
\<close>

definition is_space :: "16 word \<Rightarrow> bool" where
  "is_space c = ((9 \<le> c \<and> c \<le> 13) \<or> c = 32 \<or> c = 160 \<or> c = 0x1680
     \<or> (0x2000 \<le> c \<and> c \<le> 0x200A) \<or> c = 0x2028 \<or> c = 0x2029 \<or> c = 0x202F
     \<or> c = 0x205F \<or> c = 0x3000 \<or> c = 0xFEFF)"

definition trim :: "jsstring \<Rightarrow> jsstring" where
  "trim s = rev (dropWhile is_space (rev (dropWhile is_space s)))"

text \<open>
  Number values. Integers stand for themselves (negative zero is not told apart from
  zero, and the loss of precision above \<open>2^53\<close> is not modelled: rounding is monotone
  and the service only compares and clamps these values); \<open>js_number\<close> is the overflow
  to \<open>Infinity\<close> of a conversion to a double.
\<close>

datatype jsnum = NaN | Num int | PosInf | NegInf

definition js_number :: "int \<Rightarrow> jsnum" where
  "js_number i = (if 2 ^ 1024 - 2 ^ 970 \<le> i then PosInf
     else if i \<le> - (2 ^ 1024 - 2 ^ 970) then NegInf else Num i)"

text \<open>\<open>Math.max\<close>, \<open>Math.min\<close>, \<open>+\<close> and \<open>-\<close> on numbers, and truthiness.\<close>

fun js_max :: "jsnum \<Rightarrow> jsnum \<Rightarrow> jsnum" where
  "js_max NaN b = NaN"
| "js_max a NaN = NaN"
| "js_max PosInf b = PosInf"
| "js_max a PosInf = PosInf"
| "js_max NegInf b = b"
| "js_max a NegInf = a"
| "js_max (Num a) (Num b) = Num (max a b)"

fun js_min :: "jsnum \<Rightarrow> jsnum \<Rightarrow> jsnum" where
  "js_min NaN b = NaN"
| "js_min a NaN = NaN"
| "js_min NegInf b = NegInf"
| "js_min a NegInf = NegInf"
| "js_min PosInf b = b"
| "js_min a PosInf = a"
| "js_min (Num a) (Num b) = Num (min a b)"

fun js_neg :: "jsnum \<Rightarrow> jsnum" where
  "js_neg NaN = NaN"
| "js_neg (Num a) = Num (- a)"
| "js_neg PosInf = NegInf"
| "js_neg NegInf = PosInf"

fun js_add :: "jsnum \<Rightarrow> jsnum \<Rightarrow> jsnum" where
  "js_add NaN b = NaN"
| "js_add a NaN = NaN"
| "js_add PosInf NegInf = NaN"
| "js_add NegInf PosInf = NaN"
| "js_add PosInf b = PosInf"
| "js_add a PosInf = PosInf"
| "js_add NegInf b = NegInf"
| "js_add a NegInf = NegInf"
| "js_add (Num a) (Num b) = Num (a + b)"

definition js_sub :: "jsnum \<Rightarrow> jsnum \<Rightarrow> jsnum" where
  "js_sub a b = js_add a (js_neg b)"

fun num_truthy :: "jsnum \<Rightarrow> bool" where
  "num_truthy NaN = False"
| "num_truthy (Num a) = (a \<noteq> 0)"
| "num_truthy PosInf = True"
| "num_truthy NegInf = True"

text \<open>
  \<open>parseInt(s)\<close> with no radix: leading white space is skipped, a sign is read, a
  prefix \<open>0x\<close> or \<open>0X\<close> selects radix 16, and the longest run of digits of the radix is
  the value; \<open>NaN\<close> when that run is empty.
\<close>

definition digit_of :: "16 word \<Rightarrow> nat option" where
  "digit_of c = (if 48 \<le> c \<and> c \<le> 57 then Some (unat c - 48)
     else if 97 \<le> c \<and> c \<le> 122 then Some (unat c - 87)
     else if 65 \<le> c \<and> c \<le> 90 then Some (unat c - 55)
     else None)"

definition is_digit_of :: "nat \<Rightarrow> 16 word \<Rightarrow> bool" where
  "is_digit_of r c = (case digit_of c of None \<Rightarrow> False | Some d \<Rightarrow> d < r)"

definition digits_value :: "nat \<Rightarrow> jsstring \<Rightarrow> int" where
  "digits_value r z = int (foldl (\<lambda>a c. a * r + the (digit_of c)) 0 z)"

definition parse_digits :: "nat \<Rightarrow> int \<Rightarrow> jsstring \<Rightarrow> jsnum" where
  "parse_digits r sign s =
     (let z = takeWhile (is_digit_of r) s
      in if z = [] then NaN else js_number (sign * digits_value r z))"

definition parseInt :: "jsstring \<Rightarrow> jsnum" where
  "parseInt input =
     (let s = dropWhile is_space input;
          sign = (if s \<noteq> [] \<and> hd s = 45 then - 1 else 1);
          s1 = (if s \<noteq> [] \<and> (hd s = 43 \<or> hd s = 45) then tl s else s)
      in if 2 \<le> length s1 \<and> (take 2 s1 = str ''0x'' \<or> take 2 s1 = str ''0X'')
         then parse_digits 16 sign (drop 2 s1)
         else parse_digits 10 sign s1)"

text \<open>Decimal rendering of a counting number, as a template literal prints it.\<close>

fun decimal :: "nat \<Rightarrow> jsstring" where
  "decimal n = (if n < 10 then [of_nat (48 + n)]
     else decimal (n div 10) @ [of_nat (48 + n mod 10)])"

declare decimal.simps [simp del]

fun num_to_string :: "jsnum \<Rightarrow> jsstring" where
  "num_to_string NaN = str ''NaN''"
| "num_to_string (Num i) = (if i < 0 then str ''-'' @ decimal (nat (- i)) else decimal (nat i))"
| "num_to_string PosInf = str ''Infinity''"
| "num_to_string NegInf = str ''-Infinity''"

section \<open>The outside world\<close>

text \<open>
  Paths are lists of segments; \<open>path.join\<close> appends segments (its normalisation of
  \<open>.\<close> and \<open>..\<close> is not modelled) and \<open>path_string\<close> writes a path with \<open>/\<close>.
\<close>

type_synonym fspath = "jsstring list"

fun join_with :: "jsstring \<Rightarrow> jsstring list \<Rightarrow> jsstring" where
  "join_with sep [] = []"
| "join_with sep [x] = x"
| "join_with sep (x # y # ys) = x @ sep @ join_with sep (y # ys)"

definition path_string :: "fspath \<Rightarrow> jsstring" where
  "path_string p = join_with (str ''/'') p"

text \<open>
  \<open>execAsync\<close> either resolves with the captured output or rejects (a non-zero exit
  status, a time-out, a command that cannot be started). The rejection carries a message
  and the output captured so far.
\<close>

datatype exec_outcome =
    Resolved (out_stdout: jsstring) (out_stderr: jsstring)
  | Rejected (err_message: jsstring) (out_stdout: jsstring) (out_stderr: jsstring)

text \<open>
  What \<open>fs.readdir(dir, { withFileTypes: true })\<close> finds: regular files (with their
  text, or nothing when \<open>readFile\<close> fails), directories (with their own listing, or
  nothing when \<open>readdir\<close> fails) and other entries (links, sockets).
\<close>

datatype dirent =
    FileEntry jsstring "jsstring option"
  | DirEntry jsstring "dirent list option"
  | OtherEntry jsstring

text \<open>
  JSON values as \<open>JSON.parse\<close> and axios deliver them. A number is kept as the text
  \<open>String\<close> gives for it, which is all the service reads of a number; an object is the
  list of its properties, each key once.
\<close>

datatype json =
    JNull
  | JBool bool
  | JNumber jsstring
  | JString jsstring
  | JArray "json list"
  | JObject "(jsstring \<times> json) list"

text \<open>
  The POST to the Groq endpoint resolves with \<open>response.data\<close>, or rejects with an
  error that has a message and, when the server answered, the body of its answer
  \<open>error.response.data\<close> (\<open>None\<close>: no answer, or an answer without a body).
\<close>

datatype http_outcome =
    HttpResponse json
  | HttpError jsstring "json option"

text \<open>The places where the evaluator can raise a \<open>TypeError\<close>; the engine words the message.\<close>

datatype type_error_site =
    ReadChoices
  | CallResultMatch
  | ReadScore
  | ConvertToPrimitive
  | CallSummarySubstring
  | CallRecommendationsSubstring

text \<open>
  One run's environment: what the URL parser, the clock, the file system, git, the
  toolchain, the configuration, the HTTP client and the JSON parser answer.
  \<^item> \<open>url_hostname u\<close> is \<open>new URL(u).hostname\<close>, \<open>None\<close> when the constructor throws;
  \<^item> \<open>cwd\<close> is \<open>process.cwd()\<close> and \<open>now\<close> is \<open>Date.now()\<close>;
  \<^item> \<open>path_exists\<close> is \<open>fs.pathExists\<close>; \<open>remove_ok\<close> and \<open>clone_ok\<close> say whether
    \<open>fs.remove\<close> and \<open>git.clone\<close> resolve;
  \<^item> \<open>exec c\<close> is what \<open>execAsync(c, ...)\<close> does in the workspace;
  \<^item> \<open>lib_listing\<close> is what \<open>readdir\<close> finds under \<open>lib\<close>, \<open>None\<close> when it fails;
  \<^item> \<open>config_get\<close> is \<open>configService.get\<close>;
  \<^item> \<open>http_post url prompt\<close> is the outcome of \<open>axios.post\<close> with that prompt;
  \<^item> \<open>json_parse\<close> is \<open>JSON.parse\<close>, \<open>None\<close> when it raises a \<open>SyntaxError\<close>;
  \<^item> \<open>type_error_message\<close> is the message the engine gives a \<open>TypeError\<close>.
\<close>

record world =
  url_hostname :: "jsstring \<Rightarrow> jsstring option"
  cwd :: fspath
  now :: nat
  path_exists :: "fspath \<Rightarrow> bool"
  remove_ok :: "fspath \<Rightarrow> bool"
  clone_ok :: "jsstring \<Rightarrow> fspath \<Rightarrow> bool"
  exec :: "jsstring \<Rightarrow> exec_outcome"
  lib_listing :: "dirent list option"
  config_get :: "jsstring \<Rightarrow> jsstring option"
  http_post :: "jsstring \<Rightarrow> jsstring \<Rightarrow> http_outcome"
  json_parse :: "jsstring \<Rightarrow> json option"
  type_error_message :: "type_error_site \<Rightarrow> jsstring"

text \<open>
  The calls that leave the process, in the order they are made. Calls to the logger are
  not recorded.
\<close>

datatype effect =
    FsPathExists fspath
  | FsRemove fspath
  | GitClone jsstring fspath
  | Exec jsstring fspath nat
  | FsReaddir fspath
  | FsReadFile fspath
  | ConfigGet jsstring
  | HttpPost jsstring jsstring

section \<open>Repository fetcher and structural validator\<close>

definition tempDir :: "world \<Rightarrow> fspath" where
  "tempDir w = cwd w @ [str ''temp-repos'']"

definition isValidGitHubUrl :: "world \<Rightarrow> jsstring \<Rightarrow> bool" where
  "isValidGitHubUrl w url =
     (case url_hostname w url of
        None \<Rightarrow> False
      | Some hostname \<Rightarrow> hostname = str ''github.com'' \<or> hostname = str ''www.github.com'')"

text \<open>
  \<open>first_match m s\<close> is the leftmost position of \<open>s\<close> where the matcher \<open>m\<close> succeeds, as
  \<open>String.prototype.match\<close> searches.
\<close>

fun first_match :: "(jsstring \<Rightarrow> 'a option) \<Rightarrow> jsstring \<Rightarrow> 'a option" where
  "first_match m [] = m []"
| "first_match m (c # cs) =
     (case m (c # cs) of Some r \<Rightarrow> Some r | None \<Rightarrow> first_match m cs)"

text \<open>
  The expression \<open>/github\.com[/:]([^/]+)\/([^/]+)(?:\.git)?$/\<close> at one position. The
  second group is greedy and runs to the end of the string, so a final \<open>.git\<close> stays
  in it.
\<close>

definition repo_match_at :: "jsstring \<Rightarrow> (jsstring \<times> jsstring) option" where
  "repo_match_at s =
     (let r = drop (length (str ''github.com'')) s;
          g1 = takeWhile (\<lambda>x. x \<noteq> 47) (tl r);
          r2 = dropWhile (\<lambda>x. x \<noteq> 47) (tl r)
      in if \<not> starts_with s (str ''github.com'') then None
         else if r = [] \<or> (hd r \<noteq> 47 \<and> hd r \<noteq> 58) then None
         else if g1 = [] \<or> r2 = [] then None
         else if tl r2 \<noteq> [] \<and> 47 \<notin> set (tl r2) then Some (g1, tl r2)
         else None)"

definition extractRepoName :: "jsstring \<Rightarrow> jsstring" where
  "extractRepoName url =
     (case first_match repo_match_at url of
        Some (g1, g2) \<Rightarrow> g1 @ str ''-'' @ g2
      | None \<Rightarrow> str ''repo'')"

definition cloneRepository :: "world \<Rightarrow> jsstring \<Rightarrow> fspath option \<times> effect list" where
  "cloneRepository w repoUrl =
     (let repoName = extractRepoName repoUrl;
          repoPath = tempDir w @ [repoName @ str ''-'' @ decimal (now w)]
      in if path_exists w repoPath
         then (if \<not> remove_ok w repoPath
               then (None, [FsPathExists repoPath, FsRemove repoPath])
               else if clone_ok w repoUrl repoPath
               then (Some repoPath, [FsPathExists repoPath, FsRemove repoPath, GitClone repoUrl repoPath])
               else (None, [FsPathExists repoPath, FsRemove repoPath, GitClone repoUrl repoPath]))
         else if clone_ok w repoUrl repoPath
              then (Some repoPath, [FsPathExists repoPath, GitClone repoUrl repoPath])
              else (None, [FsPathExists repoPath, GitClone repoUrl repoPath]))"

record files_check =
  valid :: bool
  files_message :: "jsstring option"

definition checkRequiredFiles :: "world \<Rightarrow> fspath \<Rightarrow> files_check \<times> effect list" where
  "checkRequiredFiles w repoPath =
     (let pubspecPath = repoPath @ [str ''pubspec.yaml''];
          mainDartPath = repoPath @ [str ''lib'', str ''main.dart''];
          pubspecExists = path_exists w pubspecPath;
          mainDartExists = path_exists w mainDartPath;
          fx = [FsPathExists pubspecPath, FsPathExists mainDartPath]
      in if \<not> pubspecExists \<and> \<not> mainDartExists
         then (\<lparr>valid = False, files_message = Some (str ''pubspec.yaml and lib/main.dart are missing'')\<rparr>, fx)
         else if \<not> pubspecExists
         then (\<lparr>valid = False, files_message = Some (str ''pubspec.yaml is missing'')\<rparr>, fx)
         else if \<not> mainDartExists
         then (\<lparr>valid = False, files_message = Some (str ''lib/main.dart is missing'')\<rparr>, fx)
         else (\<lparr>valid = True, files_message = None\<rparr>, fx))"

section \<open>Stage runners\<close>

text \<open>What a stage runner returns: \<open>{ success: boolean; message?: string }\<close>.\<close>

record stage_result =
  success :: bool
  stage_message :: "jsstring option"

definition runFlutterPubGet :: "world \<Rightarrow> fspath \<Rightarrow> stage_result \<times> effect list" where
  "runFlutterPubGet w repoPath =
     (case exec w (str ''flutter pub get'') of
        Resolved stdout stderr \<Rightarrow>
          if stderr \<noteq> [] \<and> \<not> str_includes stderr (str ''Warning'')
          then \<lparr>success = False, stage_message = Some stderr\<rparr>
          else \<lparr>success = True, stage_message = Some (str ''Dependencies installed successfully'')\<rparr>
      | Rejected m stdout stderr \<Rightarrow>
          \<lparr>success = False, stage_message = Some (or_str (Some m) (str ''flutter pub get failed''))\<rparr>,
      [Exec (str ''flutter pub get'') repoPath 60000])"

text \<open>The bullet of \<open>error \<bullet>\<close> and \<open>info \<bullet>\<close> is U+2022.\<close>

definition checkBuild :: "world \<Rightarrow> fspath \<Rightarrow> stage_result \<times> effect list" where
  "checkBuild w repoPath =
     (case exec w (str ''flutter analyze'') of
        Resolved stdout stderr \<Rightarrow>
          (let hasErrors = (str_includes stderr (str ''error'')
                 \<or> str_includes stdout (str ''error '' @ [0x2022]))
           in if hasErrors \<and> \<not> str_includes stderr (str ''info'')
                 \<and> \<not> str_includes stdout (str ''info '' @ [0x2022])
              then \<lparr>success = False, stage_message = Some (str ''Code contains errors and does not compile'')\<rparr>
              else \<lparr>success = True, stage_message = Some (str ''Code compiles successfully'')\<rparr>,
           [Exec (str ''flutter analyze'') repoPath 120000])
      | Rejected m stdout stderr \<Rightarrow>
          (case exec w (str ''flutter build'') of
             Resolved stdout' stderr' \<Rightarrow>
               \<lparr>success = True, stage_message = Some (str ''Code compiles successfully'')\<rparr>
           | Rejected m' stdout' stderr' \<Rightarrow>
               \<lparr>success = False, stage_message = Some (or_str (Some m') (str ''Build failed''))\<rparr>,
           [Exec (str ''flutter analyze'') repoPath 120000,
            Exec (str ''flutter build'') repoPath 180000]))"

definition runFlutterTest :: "world \<Rightarrow> fspath \<Rightarrow> stage_result \<times> effect list" where
  "runFlutterTest w repoPath =
     (case exec w (str ''flutter test'') of
        Resolved stdout stderr \<Rightarrow>
          (let allTestsPassed = (str_includes stdout (str ''All tests passed!'')
                 \<or> (str_includes stdout (str ''+'')
                     \<and> \<not> str_includes stdout (str ''Some tests failed'')))
           in if allTestsPassed
              then \<lparr>success = True, stage_message = Some (str ''All tests passed'')\<rparr>
              else \<lparr>success = False, stage_message = Some (str ''Tests failed or no tests found'')\<rparr>)
      | Rejected m stdout stderr \<Rightarrow>
          if str_includes m (str ''No tests found'') \<or> str_includes m (str ''No test file'')
          then \<lparr>success = False, stage_message = Some (str ''No tests found'')\<rparr>
          else \<lparr>success = False, stage_message = Some (or_str (Some m) (str ''Tests failed''))\<rparr>,
      [Exec (str ''flutter test'') repoPath 120000])"

section \<open>File collector\<close>

record collected_file =
  file_path :: jsstring
  content :: jsstring

text \<open>
  \<open>collectFilesRecursively\<close> pushes to the array it is given, so the files found before
  a \<open>readdir\<close> fails stay in it. The result is the array, the calls made, and whether
  the walk came to its end (\<open>False\<close>: an exception left it).
\<close>

fun collectFilesRecursively ::
    "fspath \<Rightarrow> fspath \<Rightarrow> dirent list option \<Rightarrow> collected_file list \<times> effect list
      \<Rightarrow> (collected_file list \<times> effect list) \<times> bool"
  and collect_entries ::
    "fspath \<Rightarrow> fspath \<Rightarrow> dirent list \<Rightarrow> collected_file list \<times> effect list
      \<Rightarrow> (collected_file list \<times> effect list) \<times> bool"
where
  "collectFilesRecursively dir baseDir None (files, fx) = ((files, fx @ [FsReaddir dir]), False)"
| "collectFilesRecursively dir baseDir (Some entries) (files, fx) =
     collect_entries dir baseDir entries (files, fx @ [FsReaddir dir])"
| "collect_entries dir baseDir [] acc = (acc, True)"
| "collect_entries dir baseDir (DirEntry n listing # es) acc =
     (case collectFilesRecursively (dir @ [n]) baseDir listing acc of
        (acc', False) \<Rightarrow> (acc', False)
      | (acc', True) \<Rightarrow> collect_entries dir baseDir es acc')"
| "collect_entries dir baseDir (FileEntry n contents # es) (files, fx) =
     (if ends_with n (str ''.dart'')
      then (case contents of
              Some c \<Rightarrow> collect_entries dir baseDir es
                 (files @ [\<lparr>file_path = path_string (drop (length baseDir) (dir @ [n])), content = c\<rparr>],
                  fx @ [FsReadFile (dir @ [n])])
            | None \<Rightarrow> collect_entries dir baseDir es (files, fx @ [FsReadFile (dir @ [n])]))
      else collect_entries dir baseDir es (files, fx))"
| "collect_entries dir baseDir (OtherEntry n # es) acc = collect_entries dir baseDir es acc"

definition collectLibFiles :: "world \<Rightarrow> fspath \<Rightarrow> collected_file list \<times> effect list" where
  "collectLibFiles w repoPath =
     (let libPath = repoPath @ [str ''lib'']
      in if \<not> path_exists w libPath then ([], [FsPathExists libPath])
         else fst (collectFilesRecursively libPath libPath (lib_listing w) ([], [FsPathExists libPath])))"

section \<open>LLM evaluator\<close>

text \<open>
  Reading JSON values the way the evaluator does. \<open>prop_of v k\<close> is \<open>v.k\<close> for a value
  other than \<open>null\<close> (\<open>undefined\<close> is \<open>None\<close>; only objects have the keys the service
  asks for), \<open>opt_prop\<close> is \<open>v?.k\<close>, \<open>opt_index0\<close> is \<open>v?.[0]\<close>.
\<close>

fun prop_of :: "json \<Rightarrow> jsstring \<Rightarrow> json option" where
  "prop_of (JObject kvs) k = map_of kvs k"
| "prop_of v k = None"

fun opt_prop :: "json option \<Rightarrow> jsstring \<Rightarrow> json option" where
  "opt_prop None k = None"
| "opt_prop (Some JNull) k = None"
| "opt_prop (Some v) k = prop_of v k"

fun opt_index0 :: "json option \<Rightarrow> json option" where
  "opt_index0 (Some (JArray (x # xs))) = Some x"
| "opt_index0 (Some (JString (c # cs))) = Some (JString [c])"
| "opt_index0 (Some (JObject kvs)) = map_of kvs (str ''0'')"
| "opt_index0 v = None"

fun truthy :: "json option \<Rightarrow> bool" where
  "truthy None = False"
| "truthy (Some JNull) = False"
| "truthy (Some (JBool b)) = b"
| "truthy (Some (JNumber t)) = (t \<noteq> str ''0'' \<and> t \<noteq> str ''NaN'')"
| "truthy (Some (JString s)) = (s \<noteq> [])"
| "truthy (Some (JArray xs)) = True"
| "truthy (Some (JObject kvs)) = True"

text \<open>\<open>a || b\<close> on values.\<close>

definition or_val :: "json option \<Rightarrow> json option \<Rightarrow> json option" where
  "or_val a b = (if truthy a then a else b)"

text \<open>
  \<open>String(v)\<close>. An object answers \<open>[object Object]\<close> unless it has a property of its own
  named \<open>toString\<close>: a JSON value is never a function, so the conversion then raises a
  \<open>TypeError\<close> (\<open>None\<close>). An array joins its elements with commas, \<open>null\<close> as the empty
  string.
\<close>

fun all_some :: "'a option list \<Rightarrow> 'a list option" where
  "all_some [] = Some []"
| "all_some (None # xs) = None"
| "all_some (Some x # xs) = (case all_some xs of None \<Rightarrow> None | Some ys \<Rightarrow> Some (x # ys))"

fun to_string :: "json \<Rightarrow> jsstring option" where
  "to_string JNull = Some (str ''null'')"
| "to_string (JBool b) = Some (if b then str ''true'' else str ''false'')"
| "to_string (JNumber t) = Some t"
| "to_string (JString s) = Some s"
| "to_string (JArray xs) =
     map_option (join_with (str '',''))
       (all_some (map (\<lambda>x. if x = JNull then Some [] else to_string x) xs))"
| "to_string (JObject kvs) =
     (if map_of kvs (str ''toString'') = None then Some (str ''[object Object]'') else None)"

definition to_string_opt :: "json option \<Rightarrow> jsstring option" where
  "to_string_opt v = (case v of None \<Rightarrow> Some (str ''undefined'') | Some x \<Rightarrow> to_string x)"

text \<open>
  \<open>result.replace(/```json\n?/g, '')\<close> and \<open>result.replace(/```\n?/g, '')\<close>: every
  occurrence of the fence, with the line feed that may follow it, is removed, from left
  to right.
\<close>

definition skip_line_feed :: "jsstring \<Rightarrow> jsstring" where
  "skip_line_feed s = (if s \<noteq> [] \<and> hd s = 10 then tl s else s)"

function remove_fence :: "jsstring \<Rightarrow> jsstring \<Rightarrow> jsstring" where
  "remove_fence fence s =
     (if s = [] then []
      else if fence \<noteq> [] \<and> starts_with s fence
      then remove_fence fence (skip_line_feed (drop (length fence) s))
      else hd s # remove_fence fence (tl s))"
  by pat_completeness auto
termination
proof (relation "measure (\<lambda>(fence, s). length s)")
  fix fence s :: jsstring
  assume "s \<noteq> []" and "fence \<noteq> [] \<and> starts_with s fence"
  then have "length (drop (length fence) s) < length s"
    by simp
  moreover have "length (skip_line_feed (drop (length fence) s)) \<le> length (drop (length fence) s)"
    by (auto simp: skip_line_feed_def)
  ultimately show "((fence, skip_line_feed (drop (length fence) s)), (fence, s))
      \<in> measure (\<lambda>(fence, s). length s)"
    by simp
qed auto

declare remove_fence.simps [simp del]

text \<open>
  The two expressions that look for a score in a reply that is not JSON, each at one
  position: \<open>/"score":\s*(\d+)/i\<close> and \<open>/score[:\s]+(\d+)/i\<close>. The result is the
  group of digits. Without the \<open>u\<close> flag, \<open>i\<close> folds the ASCII letters only.
\<close>

definition ascii_upper :: "16 word \<Rightarrow> 16 word" where
  "ascii_upper c = (if 97 \<le> c \<and> c \<le> 122 then c - 32 else c)"

definition ci_starts_with :: "jsstring \<Rightarrow> jsstring \<Rightarrow> bool" where
  "ci_starts_with s p = (map ascii_upper (take (length p) s) = map ascii_upper p)"

definition is_digit :: "16 word \<Rightarrow> bool" where
  "is_digit c = (48 \<le> c \<and> c \<le> 57)"

definition score_field_at :: "jsstring \<Rightarrow> jsstring option" where
  \<open>score_field_at s =
     (let r = dropWhile is_space (drop (length (str ''"score":'')) s);
          digits = takeWhile is_digit r
      in if ci_starts_with s (str ''"score":'') \<and> digits \<noteq> [] then Some digits else None)\<close>

definition score_word_at :: "jsstring \<Rightarrow> jsstring option" where
  "score_word_at s =
     (let r = drop (length (str ''score'')) s;
          sep = takeWhile (\<lambda>c. c = 58 \<or> is_space c) r;
          digits = takeWhile is_digit (dropWhile (\<lambda>c. c = 58 \<or> is_space c) r)
      in if ci_starts_with s (str ''score'') \<and> sep \<noteq> [] \<and> digits \<noteq> []
         then Some digits else None)"

definition extractedScore :: "jsstring \<Rightarrow> jsnum" where
  "extractedScore result =
     (case first_match score_field_at result of
        Some digits \<Rightarrow> parseInt digits
      | None \<Rightarrow>
          (case first_match score_word_at result of
             Some digits \<Rightarrow> parseInt digits
           | None \<Rightarrow> Num 0))"

text \<open>
  What \<open>evaluateWithGroq\<close> returns. The fields \<open>score\<close> and \<open>summary\<close> of the source are
  \<open>eval_score\<close> and \<open>eval_summary\<close> here.
\<close>

record llm_result =
  eval_score :: jsnum
  eval_summary :: jsstring
  strengths :: "jsstring list"
  weaknesses :: "jsstring list"
  recommendations :: jsstring

text \<open>
  What the \<open>catch\<close> of \<open>evaluateWithGroq\<close> reads of an error: \<open>error.message\<close> and
  \<open>error.response?.data\<close>. An error raised inside the \<open>try\<close> block has no response.
\<close>

datatype caught = Caught jsstring "json option"

text \<open>Exceptions that leave \<open>evaluateWithGroq\<close> and \<open>evaluate\<close>.\<close>

datatype thrown =
    BadRequestException jsstring
  | InternalServerErrorException jsstring
  | Error jsstring

definition groqApiUrl :: jsstring where
  "groqApiUrl = str ''https://api.groq.com/openai/v1/chat/completions''"

definition assignmentDescription :: jsstring where
  "assignmentDescription =
     str ''Create a Todo app with:\<newline>- Add todo\<newline>- Delete todo\<newline>- Mark todo as complete''"

definition codeContent :: "collected_file list \<Rightarrow> jsstring" where
  "codeContent files =
     join_with (str ''\<newline>\<newline>'')
       (map (\<lambda>file. str ''// File: '' @ file_path file @ str ''\<newline>'' @ content file) files)"

definition build_prompt :: "collected_file list \<Rightarrow> jsnum \<Rightarrow> jsstring" where
  \<open>build_prompt files maxAvailableScore =
     str ''Evaluate the following Flutter code for the assignment:\<newline>\<newline>''
     @ assignmentDescription
     @ str ''\<newline>\<newline>The evaluation should be out of ''
     @ num_to_string maxAvailableScore
     @ str '' points (this represents the code quality portion of the total 20-point assignment).\<newline>\<newline>''
     @ str ''Here is the code:\<newline>\<newline>''
     @ codeContent files
     @ str ''\<newline>\<newline>Evaluate based on:\<newline>''
     @ str ''- Code quality and structure\<newline>''
     @ str ''- Implementation of requirements (Add todo, Delete todo, Mark todo as complete)\<newline>''
     @ str ''- Best practices and Flutter conventions\<newline>''
     @ str ''- Error handling\<newline>''
     @ str ''- Code organization\<newline>\<newline>''
     @ str ''Provide a CONCISE evaluation. Keep responses brief and to the point.\<newline>\<newline>''
     @ str ''Respond in the following JSON format (keep text fields short - max 200 characters each):\<newline>''
     @ str ''{\<newline>''
     @ str ''  "score": <number between 0 and '' @ num_to_string maxAvailableScore @ str ''>,\<newline>''
     @ str ''  "summary": "<brief overall summary in 2-3 sentences>",\<newline>''
     @ str ''  "strengths": ["<brief point 1>", "<brief point 2>"],\<newline>''
     @ str ''  "weaknesses": ["<brief point 1>", "<brief point 2>"],\<newline>''
     @ str ''  "recommendations": "<brief recommendation in 1-2 sentences>"\<newline>''
     @ str ''}''\<close>

text \<open>The reply could not be parsed as JSON: the score is searched for in the text.\<close>

definition fallback_result :: "jsstring \<Rightarrow> jsnum \<Rightarrow> llm_result" where
  "fallback_result result maxAvailableScore =
     \<lparr>eval_score = js_min (js_max (extractedScore result) (Num 0)) maxAvailableScore,
      eval_summary = or_str (Some (take 200 result)) (str ''Evaluation completed''),
      strengths = [],
      weaknesses = [],
      recommendations = []\<rparr>"

text \<open>
  The fields of the parsed reply, in the order the source reads them; \<open>Inl\<close> is the
  \<open>TypeError\<close> the outer \<open>catch\<close> receives.
\<close>

definition parsed_score :: "world \<Rightarrow> json \<Rightarrow> jsnum \<Rightarrow> caught + jsnum" where
  "parsed_score w parsed maxAvailableScore =
     (if parsed = JNull then Inl (Caught (type_error_message w ReadScore) None)
      else case to_string_opt (prop_of parsed (str ''score'')) of
        None \<Rightarrow> Inl (Caught (type_error_message w ConvertToPrimitive) None)
      | Some t \<Rightarrow>
          Inr (js_min (js_max (if num_truthy (parseInt t) then parseInt t else Num 0) (Num 0))
                 maxAvailableScore))"

definition parsed_summary :: "world \<Rightarrow> json \<Rightarrow> caught + jsstring" where
  "parsed_summary w parsed =
     (case or_val (or_val (prop_of parsed (str ''summary'')) (prop_of parsed (str ''feedback'')))
             (Some (JString (str ''No summary provided''))) of
        Some (JString t) \<Rightarrow> Inr (take 300 t)
      | _ \<Rightarrow> Inl (Caught (type_error_message w CallSummarySubstring) None))"

definition parsed_items :: "world \<Rightarrow> json option \<Rightarrow> caught + jsstring list" where
  "parsed_items w v =
     (case v of
        Some (JArray xs) \<Rightarrow>
          (case all_some (map to_string xs) of
             None \<Rightarrow> Inl (Caught (type_error_message w ConvertToPrimitive) None)
           | Some ys \<Rightarrow> Inr (take 5 (map (take 150) ys)))
      | _ \<Rightarrow> Inr [])"

definition parsed_recommendations :: "world \<Rightarrow> json \<Rightarrow> caught + jsstring" where
  "parsed_recommendations w parsed =
     (case or_val (prop_of parsed (str ''recommendations'')) (Some (JString [])) of
        Some (JString t) \<Rightarrow> Inr (take 200 t)
      | _ \<Rightarrow> Inl (Caught (type_error_message w CallRecommendationsSubstring) None))"

definition from_parsed :: "world \<Rightarrow> json \<Rightarrow> jsnum \<Rightarrow> caught + llm_result" where
  "from_parsed w parsed maxAvailableScore =
     (case parsed_score w parsed maxAvailableScore of
        Inl e \<Rightarrow> Inl e
      | Inr score' \<Rightarrow>
     (case parsed_summary w parsed of
        Inl e \<Rightarrow> Inl e
      | Inr summary' \<Rightarrow>
     (case parsed_items w (prop_of parsed (str ''strengths'')) of
        Inl e \<Rightarrow> Inl e
      | Inr strengths' \<Rightarrow>
     (case parsed_items w (prop_of parsed (str ''weaknesses'')) of
        Inl e \<Rightarrow> Inl e
      | Inr weaknesses' \<Rightarrow>
     (case parsed_recommendations w parsed of
        Inl e \<Rightarrow> Inl e
      | Inr recommendations' \<Rightarrow>
          Inr \<lparr>eval_score = score', eval_summary = summary', strengths = strengths',
               weaknesses = weaknesses', recommendations = recommendations'\<rparr>)))))"

definition parse_reply :: "world \<Rightarrow> jsstring \<Rightarrow> jsnum \<Rightarrow> caught + llm_result" where
  "parse_reply w result maxAvailableScore =
     (let cleanedResult = trim (remove_fence (str ''```'') (remove_fence (str ''```json'') result))
      in case json_parse w cleanedResult of
           None \<Rightarrow> Inr (fallback_result result maxAvailableScore)
         | Some parsed \<Rightarrow> from_parsed w parsed maxAvailableScore)"

text \<open>
  The \<open>try\<close> block. A reply that is not a string has neither \<open>replace\<close> nor \<open>match\<close>:
  the inner \<open>catch\<close> raises again, from its log line when the value cannot be
  converted to a string, from \<open>result.match\<close> otherwise.
\<close>

definition groq_try :: "world \<Rightarrow> jsstring \<Rightarrow> jsnum \<Rightarrow> caught + llm_result" where
  "groq_try w prompt maxAvailableScore =
     (case http_post w groqApiUrl prompt of
        HttpError m data \<Rightarrow> Inl (Caught m data)
      | HttpResponse data \<Rightarrow>
          if data = JNull then Inl (Caught (type_error_message w ReadChoices) None)
          else
            (let result = opt_prop (opt_prop (opt_index0 (prop_of data (str ''choices'')))
                             (str ''message'')) (str ''content'')
             in if \<not> truthy result then Inl (Caught (str ''No response from Groq API'') None)
                else case result of
                  Some (JString t) \<Rightarrow> parse_reply w t maxAvailableScore
                | _ \<Rightarrow>
                    if to_string_opt result = None
                    then Inl (Caught (type_error_message w ConvertToPrimitive) None)
                    else Inl (Caught (type_error_message w CallResultMatch) None)))"

text \<open>
  The outer \<open>catch\<close>: the default result. Its summary interpolates
  \<open>error.response?.data?.error?.message || error.message\<close> into a template literal;
  \<open>failure_text\<close> is that conversion, \<open>None\<close> when it raises a \<open>TypeError\<close>, which then
  leaves \<open>evaluateWithGroq\<close>.
\<close>

definition failure_text :: "json option \<Rightarrow> jsstring \<Rightarrow> jsstring option" where
  "failure_text data m =
     to_string_opt (or_val (opt_prop (opt_prop data (str ''error'')) (str ''message''))
                      (Some (JString m)))"

fun failure_result :: "world \<Rightarrow> caught \<Rightarrow> thrown + llm_result" where
  "failure_result w (Caught m data) =
     (case failure_text data m of
        None \<Rightarrow> Inl (Error (type_error_message w ConvertToPrimitive))
      | Some t \<Rightarrow>
          Inr \<lparr>eval_score = Num 0,
               eval_summary = str ''Evaluation failed: '' @ t,
               strengths = [],
               weaknesses = [],
               recommendations = []\<rparr>)"

definition evaluateWithGroq ::
    "world \<Rightarrow> collected_file list \<Rightarrow> jsnum \<Rightarrow> (thrown + llm_result) \<times> effect list" where
  "evaluateWithGroq w files maxAvailableScore =
     (let groqApiKey = config_get w (str ''GROQ_API_KEY'');
          prompt = build_prompt files maxAvailableScore
      in if or_str groqApiKey [] = []
         then (Inl (InternalServerErrorException
                 (str ''Groq API key not configured. Please set GROQ_API_KEY environment variable.'')),
               [ConfigGet (str ''GROQ_API_KEY'')])
         else (case groq_try w prompt maxAvailableScore of
                 Inl e \<Rightarrow> failure_result w e
               | Inr r \<Rightarrow> Inr r,
               [ConfigGet (str ''GROQ_API_KEY''), HttpPost groqApiUrl prompt]))"

section \<open>Pipeline orchestrator\<close>

record CheckResult =
  name :: jsstring
  passed :: bool
  message :: "jsstring option"
  score :: jsnum

record evaluation_details =
  cloneSuccessful :: bool
  filesValid :: bool
  pubGetSuccessful :: bool
  buildSuccessful :: bool
  testsPassed :: bool
  groqEvaluation :: "llm_result option"

record EvaluateResponseDto =
  totalScore :: jsnum
  maxScore :: jsnum
  checks :: "CheckResult list"
  feedback :: "jsstring option"
  summary :: "jsstring option"
  details :: evaluation_details

definition buildResponse ::
    "jsnum \<Rightarrow> jsnum \<Rightarrow> CheckResult list \<Rightarrow> evaluation_details \<Rightarrow> jsstring option
      \<Rightarrow> jsstring option \<Rightarrow> EvaluateResponseDto" where
  "buildResponse totalScore' maxScore' checks' details' feedback' summary' =
     \<lparr>totalScore = totalScore',
      maxScore = maxScore',
      checks = checks',
      feedback = feedback',
      summary = (if or_str summary' [] \<noteq> [] then summary' else feedback'),
      details = details'\<rparr>"

text \<open>
  Steps 2 to 7 of \<open>evaluate\<close>: the rest of the \<open>try\<close> block once the repository is
  cloned. \<open>Inl\<close> is an exception on its way to the \<open>catch\<close>.
\<close>

definition evaluate_steps ::
    "world \<Rightarrow> fspath \<Rightarrow> (thrown + EvaluateResponseDto) \<times> effect list" where
  "evaluate_steps w repoPath =
     (let maxScore' = Num 20;
          checks1 = [\<lparr>name = str ''Clone Repository'', passed = True,
                      message = Some (str ''Repository cloned successfully''), score = Num 0\<rparr>];
          filesValid' = fst (checkRequiredFiles w repoPath);
          fx2 = snd (checkRequiredFiles w repoPath)
      in if \<not> valid filesValid'
         then (Inr (buildResponse (Num 0) maxScore'
                 (checks1 @ [\<lparr>name = str ''Required Files Check'', passed = False,
                     message = files_message filesValid', score = Num 0\<rparr>])
                 \<lparr>cloneSuccessful = True, filesValid = False, pubGetSuccessful = False,
                  buildSuccessful = False, testsPassed = False, groqEvaluation = None\<rparr>
                 (Some (or_str (files_message filesValid')
                          (str ''Required files missing. Score: 0/20'')))
                 None), fx2)
         else
     (let checks2 = checks1 @ [\<lparr>name = str ''Required Files Check'', passed = True,
                      message = Some (str ''pubspec.yaml and lib/main.dart exist''), score = Num 0\<rparr>];
          pubGetResult = fst (runFlutterPubGet w repoPath);
          fx3 = fx2 @ snd (runFlutterPubGet w repoPath)
      in if \<not> success pubGetResult
         then (Inr (buildResponse (Num 5) maxScore'
                 (checks2 @ [\<lparr>name = str ''Flutter Pub Get'', passed = False,
                     message = stage_message pubGetResult, score = Num 0\<rparr>])
                 \<lparr>cloneSuccessful = True, filesValid = True, pubGetSuccessful = False,
                  buildSuccessful = False, testsPassed = False, groqEvaluation = None\<rparr>
                 (Some (str ''Dependencies installation failed. Maximum score: 5/20''))
                 None), fx3)
         else
     (let checks3 = checks2 @ [\<lparr>name = str ''Flutter Pub Get'', passed = True,
                      message = Some (str ''Dependencies installed successfully''), score = Num 0\<rparr>];
          buildResult = fst (checkBuild w repoPath);
          fx4 = fx3 @ snd (checkBuild w repoPath)
      in if \<not> success buildResult
         then (Inr (buildResponse (Num 5) maxScore'
                 (checks3 @ [\<lparr>name = str ''Build Check'', passed = False,
                     message = stage_message buildResult, score = Num 0\<rparr>])
                 \<lparr>cloneSuccessful = True, filesValid = True, pubGetSuccessful = True,
                  buildSuccessful = False, testsPassed = False, groqEvaluation = None\<rparr>
                 (Some (str ''App does not compile. Maximum score: 5/20''))
                 None), fx4)
         else
     (let checks4 = checks3 @ [\<lparr>name = str ''Build Check'', passed = True,
                      message = Some (str ''App compiles successfully''), score = Num 0\<rparr>];
          testResult = fst (runFlutterTest w repoPath);
          fx5 = fx4 @ snd (runFlutterTest w repoPath);
          testScore = (if success testResult then Num 5 else Num 0);
          totalScore5 = (if success testResult then js_add (Num 0) testScore else Num 0);
          checks5 = checks4 @
            [if success testResult
             then \<lparr>name = str ''Flutter Test'', passed = True,
                   message = Some (or_str (stage_message testResult) (str ''Tests passed'')),
                   score = testScore\<rparr>
             else \<lparr>name = str ''Flutter Test'', passed = False,
                   message = Some (or_str (stage_message testResult)
                                     (str ''Tests failed or no tests found'')),
                   score = Num 0\<rparr>];
          libFiles = fst (collectLibFiles w repoPath);
          fx6 = fx5 @ snd (collectLibFiles w repoPath)
      in if length libFiles = 0
         then (Inr (buildResponse totalScore5 maxScore' checks5
                 \<lparr>cloneSuccessful = True, filesValid = True, pubGetSuccessful = True,
                  buildSuccessful = True, testsPassed = success testResult,
                  groqEvaluation = None\<rparr>
                 (Some (str ''Evaluation completed. Score: '' @ num_to_string totalScore5
                          @ str ''/20''))
                 None), fx6)
         else
     (let remainingScore = js_sub maxScore' totalScore5;
          groq = fst (evaluateWithGroq w libFiles remainingScore);
          fx7 = fx6 @ snd (evaluateWithGroq w libFiles remainingScore)
      in case groq of
           Inl e \<Rightarrow> (Inl e, fx7)
         | Inr groqResult \<Rightarrow>
             (let groqScore = js_min (eval_score groqResult) remainingScore
              in (Inr (buildResponse (js_add totalScore5 groqScore) maxScore'
                    (checks5 @ [\<lparr>name = str ''Groq Code Evaluation'', passed = True,
                        message = Some (str ''Code evaluated by Groq''),
                        score = groqScore\<rparr>])
                    \<lparr>cloneSuccessful = True, filesValid = True, pubGetSuccessful = True,
                     buildSuccessful = True, testsPassed = success testResult,
                     groqEvaluation = Some
                       \<lparr>eval_score = groqScore,
                        eval_summary = eval_summary groqResult,
                        strengths = strengths groqResult,
                        weaknesses = weaknesses groqResult,
                        recommendations = recommendations groqResult\<rparr>\<rparr>
                    (Some (eval_summary groqResult))
                    (Some (eval_summary groqResult))), fx7)))))))"

text \<open>
  The \<open>catch\<close> of \<open>evaluate\<close>: the two typed exceptions pass unchanged, anything else is
  wrapped.
\<close>

fun on_catch :: "thrown \<Rightarrow> thrown" where
  "on_catch (BadRequestException m) = BadRequestException m"
| "on_catch (InternalServerErrorException m) = InternalServerErrorException m"
| "on_catch (Error m) =
     InternalServerErrorException (str ''Evaluation failed: '' @ or_str (Some m) (str ''Unknown error''))"

text \<open>
  \<open>evaluate\<close>: the locator check, the clone, the steps, and the \<open>finally\<close> that removes
  the workspace when there is one.
\<close>

definition evaluate ::
    "world \<Rightarrow> jsstring \<Rightarrow> (thrown + EvaluateResponseDto) \<times> effect list" where
  "evaluate w repoUrl =
     (if \<not> isValidGitHubUrl w repoUrl
      then (Inl (on_catch (BadRequestException (str ''Invalid GitHub repository URL''))), [])
      else case fst (cloneRepository w repoUrl) of
        None \<Rightarrow>
          (Inr (buildResponse (Num 0) (Num 20)
             [\<lparr>name = str ''Clone Repository'', passed = False,
               message = Some (str ''Failed to clone repository''), score = Num 0\<rparr>]
             \<lparr>cloneSuccessful = False, filesValid = False, pubGetSuccessful = False,
              buildSuccessful = False, testsPassed = False, groqEvaluation = None\<rparr>
             (Some (str ''Repository cloning failed. Score: 0/20''))
             None),
           snd (cloneRepository w repoUrl))
      | Some repoPath \<Rightarrow>
          (case fst (evaluate_steps w repoPath) of
             Inl e \<Rightarrow> Inl (on_catch e)
           | Inr response \<Rightarrow> Inr response,
           snd (cloneRepository w repoUrl) @ snd (evaluate_steps w repoPath) @ [FsRemove repoPath]))"

section \<open>Observing a run\<close>

text \<open>
  Which stages a run reached, read from its calls: the test stage runs \<open>flutter test\<close>,
  the collector probes and walks \<open>lib\<close> under the workspace, and the evaluator reads the
  configuration and posts to the Groq endpoint.
\<close>

fun test_call :: "effect \<Rightarrow> bool" where
  "test_call (Exec c d t) = (c = str ''flutter test'')"
| "test_call e = False"

fun collect_call :: "fspath \<Rightarrow> effect \<Rightarrow> bool" where
  "collect_call repoPath (FsPathExists p) = (p = repoPath @ [str ''lib''])"
| "collect_call repoPath (FsReaddir p) = True"
| "collect_call repoPath (FsReadFile p) = True"
| "collect_call repoPath e = False"

fun quality_call :: "effect \<Rightarrow> bool" where
  "quality_call (ConfigGet k) = True"
| "quality_call (HttpPost u b) = True"
| "quality_call e = False"

definition test_stage_ran :: "effect list \<Rightarrow> bool" where
  "test_stage_ran fx = list_ex test_call fx"

definition collection_ran :: "fspath \<Rightarrow> effect list \<Rightarrow> bool" where
  "collection_ran repoPath fx = list_ex (collect_call repoPath) fx"

definition quality_evaluation_ran :: "effect list \<Rightarrow> bool" where
  "quality_evaluation_ran fx = list_ex quality_call fx"

text \<open>The checks of a response that carry a given name.\<close>

definition checks_named :: "jsstring \<Rightarrow> EvaluateResponseDto \<Rightarrow> CheckResult list" where
  "checks_named n r = filter (\<lambda>c. name c = n) (checks r)"

text \<open>
  The calls of a walk: \<open>walk_only fx fx'\<close> says that \<open>fx'\<close> continues \<open>fx\<close> with calls that
  belong neither to the test stage nor to the evaluator.
\<close>

definition walk_only :: "effect list \<Rightarrow> effect list \<Rightarrow> bool" where
  "walk_only fx fx' =
     (take (length fx) fx' = fx
      \<and> \<not> list_ex quality_call (drop (length fx) fx')
      \<and> \<not> list_ex test_call (drop (length fx) fx'))"

text \<open>The caps on the text of an evaluation result.\<close>

definition within_caps :: "llm_result \<Rightarrow> bool" where
  "within_caps g =
     (length (eval_summary g) \<le> 300
      \<and> length (strengths g) \<le> 5 \<and> list_all (\<lambda>s. length s \<le> 150) (strengths g)
      \<and> length (weaknesses g) \<le> 5 \<and> list_all (\<lambda>s. length s \<le> 150) (weaknesses g)
      \<and> length (recommendations g) \<le> 200)"

section \<open>Example runs\<close>

text \<open>
  A run in which every stage passes and the model answers with a fenced JSON object, and
  variants of it. The workspace of these runs is \<open>ws_ok\<close>.
\<close>

definition url_ok :: jsstring where
  "url_ok = str ''https://github.com/alice/todo''"

definition url_other_host :: jsstring where
  "url_other_host = str ''https://example.org/x/y''"

definition reply_text :: jsstring where
  \<open>reply_text = str ''```json\<newline>{"score": 99, "summary": "Solid work"}\<newline>```''\<close>

definition w_pass :: world where
  \<open>w_pass = \<lparr>
     url_hostname = (\<lambda>u. if u = url_ok then Some (str ''github.com'')
                         else if u = url_other_host then Some (str ''example.org'') else None),
     cwd = [str ''srv''],
     now = 1720,
     path_exists = (\<lambda>p. 3 < length p),
     remove_ok = (\<lambda>p. True),
     clone_ok = (\<lambda>u p. True),
     exec = (\<lambda>c. if c = str ''flutter test''
                  then Resolved (str ''00:02 +3: All tests passed!'') []
                  else Resolved [] []),
     lib_listing = Some [FileEntry (str ''main.dart'') (Some (str ''void main() {}''))],
     config_get = (\<lambda>k. if k = str ''GROQ_API_KEY'' then Some (str ''gsk_test'') else None),
     http_post = (\<lambda>u b. HttpResponse (JObject [(str ''choices'',
        JArray [JObject [(str ''message'', JObject [(str ''content'', JString reply_text)])]])])),
     json_parse = (\<lambda>s. if s = str ''{"score": 99, "summary": "Solid work"}''
        then Some (JObject [(str ''score'', JNumber (str ''99'')),
                            (str ''summary'', JString (str ''Solid work''))])
        else None),
     type_error_message = (\<lambda>s. str ''TypeError'')
        (ConvertToPrimitive := str ''Cannot convert object to primitive value'')\<rparr>\<close>

definition w_install_fails :: world where
  "w_install_fails = w_pass\<lparr>exec := (\<lambda>c. if c = str ''flutter pub get''
      then Rejected (str ''Command failed: flutter pub get'') [] [] else exec w_pass c)\<rparr>"

definition ws_ok :: fspath where
  "ws_ok = [str ''srv'', str ''temp-repos'', extractRepoName url_ok @ str ''-'' @ decimal 1720]"

text \<open>
  Variants: the Groq endpoint cannot be reached; the credential is not configured; the
  tests fail; the tests fail and \<open>lib/main.dart\<close> is a symbolic link; \<open>lib/main.dart\<close>
  cannot be read; \<open>lib/main.dart\<close> is a symbolic link; the endpoint answers 429 with the
  message of its rate limiter; the endpoint answers 500 with the body
  \<open>{"error": {"message": {"toString": 0}}}\<close>; \<open>flutter pub get\<close> writes a warning and an
  error to stderr and exits with status 0.
\<close>

definition w_llm_down :: world where
  "w_llm_down = w_pass\<lparr>http_post := (\<lambda>u b. HttpError (str ''Network Error'') None)\<rparr>"

definition w_no_key :: world where
  "w_no_key = w_pass\<lparr>config_get := (\<lambda>k. None)\<rparr>"

definition w_tests_fail :: world where
  "w_tests_fail = w_pass\<lparr>exec := (\<lambda>c. if c = str ''flutter test''
      then Resolved (str ''00:03 +1 -1: Some tests failed.'') [] else Resolved [] [])\<rparr>"

definition w_tests_fail_link :: world where
  "w_tests_fail_link = w_tests_fail\<lparr>lib_listing := Some [OtherEntry (str ''main.dart'')]\<rparr>"

definition w_unreadable :: world where
  "w_unreadable = w_pass\<lparr>lib_listing := Some [FileEntry (str ''main.dart'') None]\<rparr>"

definition w_link :: world where
  "w_link = w_pass\<lparr>lib_listing := Some [OtherEntry (str ''main.dart'')]\<rparr>"

definition rate_limit_message :: jsstring where
  "rate_limit_message = str (''Rate limit reached for model `openai/gpt-oss-120b` in organization ''
     @ ''`org_01hxyzabcdefghjkmnpqrstvwx` service tier `on_demand` on tokens per minute (TPM): ''
     @ ''Limit 8000, Used 7522, Requested 1904. Please try again in 10.695s. ''
     @ ''Need more tokens? Upgrade to Dev Tier today at https://console.groq.com/settings/billing'')"

definition w_rate_limited :: world where
  "w_rate_limited = w_pass\<lparr>http_post := (\<lambda>u b.
      HttpError (str ''Request failed with status code 429'')
        (Some (JObject [(str ''error'',
           JObject [(str ''message'', JString rate_limit_message)])])))\<rparr>"

definition w_error_object :: world where
  "w_error_object = w_pass\<lparr>http_post := (\<lambda>u b.
      HttpError (str ''Request failed with status code 500'')
        (Some (JObject [(str ''error'',
           JObject [(str ''message'',
             JObject [(str ''toString'', JNumber (str ''0''))])])])))\<rparr>"

definition w_warns :: world where
  "w_warns = w_pass\<lparr>exec := (\<lambda>c. if c = str ''flutter pub get''
      then Resolved [] (str ''Warning: lockfile is stale\<newline>version solving failed.'')
      else exec w_pass c)\<rparr>"

section \<open>Auxiliary facts\<close>

subsection \<open>Strings and numbers\<close>

lemma code_unit_inj: "((of_nat (of_char c) :: 16 word) = of_nat (of_char d)) = (c = d)"
proof
  assume "(of_nat (of_char c) :: 16 word) = of_nat (of_char d)"
  then have "unat (of_nat (of_char c :: nat) :: 16 word) = unat (of_nat (of_char d :: nat) :: 16 word)"
    by simp
  moreover have "(of_char x :: nat) < 2 ^ 16" for x
  proof -
    have "(of_char x :: nat) mod 256 < 256"
      by (rule mod_less_divisor) simp
    then have "(of_char x :: nat) < 256"
      by simp
    then have "(of_char x :: nat) < 65536"
      by linarith
    then show ?thesis
      by simp
  qed
  ultimately have "(of_char c :: nat) = of_char d"
    by (simp add: unat_of_nat take_bit_nat_eq_self)
  then show "c = d"
    by simp
qed simp

lemma str_eq_iff: "(str a = str b) = (a = b)"
  unfolding str_def
  by (rule inj_map_eq_map) (simp add: inj_on_def code_unit_inj)

lemma str_empty_iff: "(str a = []) = (a = [])"
  by (simp add: str_def)

lemma length_str: "length (str a) = length a"
  by (simp add: str_def)

lemma clamp_range:
  "x \<noteq> NaN \<Longrightarrow> 0 \<le> m \<Longrightarrow> \<exists>q. js_min (js_max x (Num 0)) (Num m) = Num q \<and> 0 \<le> q \<and> q \<le> m"
  by (cases x) auto

lemma js_number_not_NaN: "js_number i \<noteq> NaN"
  by (simp add: js_number_def)

lemma first_match_Some: "first_match f s = Some r \<Longrightarrow> \<exists>t. f t = Some r"
  by (induction s) (auto split: option.splits)

lemma is_digit_digit_of: "is_digit c \<Longrightarrow> is_digit_of 10 c"
  unfolding is_digit_def is_digit_of_def digit_of_def
  by (auto simp: word_le_nat_alt)

lemma is_digit_not_space: "is_digit c \<Longrightarrow> \<not> is_space c"
  unfolding is_digit_def is_space_def
  by (auto simp: word_le_nat_alt)

lemma parseInt_digits:
  assumes "d \<noteq> []" and "list_all is_digit d"
  shows "parseInt d \<noteq> NaN"
proof -
  from assms obtain c cs where d: "d = c # cs" and c: "is_digit c" and cs: "list_all is_digit cs"
    by (cases d) auto
  have nospace: "dropWhile is_space d = d"
    using c d by (simp add: is_digit_not_space)
  have nosign: "c \<noteq> 43" "c \<noteq> 45"
    using c by (auto simp: is_digit_def)
  have nohex: "take 2 d \<noteq> str ''0x''" "take 2 d \<noteq> str ''0X''"
    using cs d by (cases cs; auto simp: str_def is_digit_def)+
  have "takeWhile (is_digit_of 10) d \<noteq> []"
    using c d by (simp add: is_digit_digit_of)
  then show ?thesis
    using nospace nosign nohex d
    by (simp add: parseInt_def Let_def parse_digits_def js_number_not_NaN)
qed


lemma score_field_at_digits: "score_field_at t = Some d \<Longrightarrow> d \<noteq> [] \<and> list_all is_digit d"
  by (auto simp: score_field_at_def Let_def list_all_iff split: if_splits dest: set_takeWhileD)

lemma score_word_at_digits: "score_word_at t = Some d \<Longrightarrow> d \<noteq> [] \<and> list_all is_digit d"
  by (auto simp: score_word_at_def Let_def list_all_iff split: if_splits dest: set_takeWhileD)

lemma extractedScore_not_NaN: "extractedScore s \<noteq> NaN"
proof (cases "first_match score_field_at s")
  case (Some d)
  from first_match_Some[OF Some] obtain t where "score_field_at t = Some d" ..
  from score_field_at_digits[OF this] have "parseInt d \<noteq> NaN"
    by (simp add: parseInt_digits)
  with Some show ?thesis
    by (simp add: extractedScore_def)
next
  case None
  show ?thesis
  proof (cases "first_match score_word_at s")
    case (Some d)
    from first_match_Some[OF Some] obtain t where "score_word_at t = Some d" ..
    from score_word_at_digits[OF this] have "parseInt d \<noteq> NaN"
      by (simp add: parseInt_digits)
    with Some None show ?thesis
      by (simp add: extractedScore_def)
  next
    case None2: None
    with None show ?thesis
      by (simp add: extractedScore_def)
  qed
qed

lemma fallback_result_score:
  "0 \<le> m \<Longrightarrow> \<exists>q. eval_score (fallback_result s (Num m)) = Num q \<and> 0 \<le> q \<and> q \<le> m"
  by (simp add: fallback_result_def clamp_range extractedScore_not_NaN)

lemma parsed_score_range:
  assumes "parsed_score w parsed (Num m) = Inr x" and "0 \<le> m"
  shows "\<exists>q. x = Num q \<and> 0 \<le> q \<and> q \<le> m"
proof (cases "to_string_opt (prop_of parsed (str ''score''))")
  case None
  with assms(1) show ?thesis
    by (simp add: parsed_score_def split: if_splits)
next
  case (Some t)
  have "(if num_truthy (parseInt t) then parseInt t else Num 0) \<noteq> NaN"
    by (cases "parseInt t") auto
  from clamp_range[OF this assms(2)] obtain q where
    "js_min (js_max (if num_truthy (parseInt t) then parseInt t else Num 0) (Num 0)) (Num m) = Num q"
    "0 \<le> q" "q \<le> m"
    by blast
  moreover from assms(1) Some have
    "x = js_min (js_max (if num_truthy (parseInt t) then parseInt t else Num 0) (Num 0)) (Num m)"
    by (cases "parsed = JNull") (simp_all add: parsed_score_def)
  ultimately show ?thesis
    by simp
qed

lemma from_parsed_score:
  assumes "from_parsed w parsed (Num m) = Inr g" and "0 \<le> m"
  shows "\<exists>q. eval_score g = Num q \<and> 0 \<le> q \<and> q \<le> m"
  using assms
  by (auto simp: from_parsed_def split: sum.splits dest: parsed_score_range)

lemma groq_try_score:
  assumes "groq_try w prompt (Num m) = Inr g" and "0 \<le> m"
  shows "\<exists>q. eval_score g = Num q \<and> 0 \<le> q \<and> q \<le> m"
proof -
  from assms(1) obtain t where "parse_reply w t (Num m) = Inr g"
    by (auto simp: groq_try_def Let_def split: http_outcome.splits if_splits option.splits json.splits)
  then have "(\<exists>parsed. from_parsed w parsed (Num m) = Inr g) \<or> g = fallback_result t (Num m)"
    by (auto simp: parse_reply_def Let_def split: option.splits)
  with assms(2) show ?thesis
    using from_parsed_score fallback_result_score by blast
qed

lemma failure_result_score: "failure_result w e = Inr g \<Longrightarrow> eval_score g = Num 0"
  by (cases e) (auto split: option.splits)

lemma evaluateWithGroq_score:
  assumes "fst (evaluateWithGroq w files (Num m)) = Inr g" and "0 \<le> m"
  shows "\<exists>q. eval_score g = Num q \<and> 0 \<le> q \<and> q \<le> m"
proof (cases "groq_try w (build_prompt files (Num m)) (Num m)")
  case (Inl e)
  with assms have "failure_result w e = Inr g"
    by (auto simp: evaluateWithGroq_def Let_def split: if_splits)
  with assms(2) show ?thesis
    by (simp add: failure_result_score)
next
  case (Inr r)
  with assms have "g = r"
    by (auto simp: evaluateWithGroq_def Let_def split: if_splits)
  with Inr assms(2) show ?thesis
    using groq_try_score by blast
qed


lemma clone_trace:
  assumes "fst (cloneRepository w u) = Some p"
  shows "\<not> list_ex test_call (snd (cloneRepository w u))"
    and "\<not> list_ex (collect_call p) (snd (cloneRepository w u))"
    and "\<not> list_ex quality_call (snd (cloneRepository w u))"
  using assms by (auto simp: cloneRepository_def Let_def split: if_splits)

lemma clone_quiet: "\<not> list_ex quality_call (snd (cloneRepository w u))"
  by (simp add: cloneRepository_def Let_def)

lemma files_trace:
  shows "\<not> list_ex test_call (snd (checkRequiredFiles w p))"
    and "\<not> list_ex (collect_call p) (snd (checkRequiredFiles w p))"
    and "\<not> list_ex quality_call (snd (checkRequiredFiles w p))"
  by (auto simp: checkRequiredFiles_def Let_def str_def)

lemma pubget_trace:
  shows "\<not> list_ex test_call (snd (runFlutterPubGet w p))"
    and "\<not> list_ex (collect_call p) (snd (runFlutterPubGet w p))"
    and "\<not> list_ex quality_call (snd (runFlutterPubGet w p))"
  by (auto simp: runFlutterPubGet_def str_def)

lemma build_trace:
  shows "\<not> list_ex test_call (snd (checkBuild w p))"
    and "\<not> list_ex (collect_call p) (snd (checkBuild w p))"
    and "\<not> list_ex quality_call (snd (checkBuild w p))"
  by (auto simp: checkBuild_def Let_def str_def split: exec_outcome.splits)

subsection \<open>The evaluator\<close>

lemma evaluateWithGroq_without_key:
  assumes "config_get w (str ''GROQ_API_KEY'') = None \<or> config_get w (str ''GROQ_API_KEY'') = Some []"
  shows "fst (evaluateWithGroq w files m) = Inl (InternalServerErrorException
           (str ''Groq API key not configured. Please set GROQ_API_KEY environment variable.''))"
  using assms by (auto simp: evaluateWithGroq_def Let_def)

lemma evaluateWithGroq_with_key:
  assumes "config_get w (str ''GROQ_API_KEY'') = Some k" and "k \<noteq> []"
  shows "fst (evaluateWithGroq w files m)
           = (case groq_try w (build_prompt files m) m of
                Inl e \<Rightarrow> failure_result w e | Inr r \<Rightarrow> Inr r)"
    and "snd (evaluateWithGroq w files m)
           = [ConfigGet (str ''GROQ_API_KEY''), HttpPost groqApiUrl (build_prompt files m)]"
  using assms by (simp_all add: evaluateWithGroq_def Let_def)

lemma parsed_items_caps:
  assumes "parsed_items w v = Inr xs"
  shows "length xs \<le> 5 \<and> list_all (\<lambda>s. length s \<le> 150) xs"
proof -
  have "length (take 5 (map (take 150) ys)) \<le> 5
      \<and> list_all (\<lambda>s. length s \<le> 150) (take 5 (map (take 150) ys))" for ys :: "jsstring list"
    by (auto simp: list_all_iff dest!: in_set_takeD)
  with assms show ?thesis
    by (auto simp: parsed_items_def split: option.splits json.splits)
qed

lemma from_parsed_caps:
  assumes "from_parsed w parsed m = Inr g"
  shows "within_caps g"
proof -
  from assms obtain sc sm st wk rc where
    parts: "parsed_summary w parsed = Inr sm"
      "parsed_items w (prop_of parsed (str ''strengths'')) = Inr st"
      "parsed_items w (prop_of parsed (str ''weaknesses'')) = Inr wk"
      "parsed_recommendations w parsed = Inr rc"
    and g: "g = \<lparr>eval_score = sc, eval_summary = sm, strengths = st, weaknesses = wk,
                  recommendations = rc\<rparr>"
    by (auto simp: from_parsed_def split: sum.splits)
  have "length sm \<le> 300"
    using parts(1) by (auto simp: parsed_summary_def split: option.splits json.splits)
  moreover have "length rc \<le> 200"
    using parts(4) by (auto simp: parsed_recommendations_def split: option.splits json.splits)
  ultimately show ?thesis
    using parsed_items_caps[OF parts(2)] parsed_items_caps[OF parts(3)] g
    by (simp add: within_caps_def)
qed

lemma fallback_result_caps: "within_caps (fallback_result s m)"
proof -
  have "length (or_str (Some (take 200 s)) (str ''Evaluation completed'')) \<le> 300"
    by (auto simp: length_str)
  then show ?thesis
    by (simp add: within_caps_def fallback_result_def)
qed

lemma groq_try_caps:
  assumes "groq_try w prompt m = Inr g"
  shows "within_caps g"
proof -
  from assms obtain t where "parse_reply w t m = Inr g"
    by (auto simp: groq_try_def Let_def split: http_outcome.splits if_splits option.splits json.splits)
  then have "(\<exists>parsed. from_parsed w parsed m = Inr g) \<or> g = fallback_result t m"
    by (auto simp: parse_reply_def Let_def split: option.splits)
  then show ?thesis
    using from_parsed_caps fallback_result_caps by blast
qed

subsection \<open>Calls of the stages\<close>

lemma walk_only_iff:
  "walk_only fx fx'
     = (\<exists>ext. fx' = fx @ ext \<and> \<not> list_ex quality_call ext \<and> \<not> list_ex test_call ext)"
proof
  assume "walk_only fx fx'"
  then have "fx' = fx @ drop (length fx) fx'"
    and "\<not> list_ex quality_call (drop (length fx) fx')"
    and "\<not> list_ex test_call (drop (length fx) fx')"
    using append_take_drop_id[of "length fx" fx'] by (simp_all add: walk_only_def)
  then show "\<exists>ext. fx' = fx @ ext \<and> \<not> list_ex quality_call ext \<and> \<not> list_ex test_call ext"
    by blast
next
  assume "\<exists>ext. fx' = fx @ ext \<and> \<not> list_ex quality_call ext \<and> \<not> list_ex test_call ext"
  then show "walk_only fx fx'"
    by (auto simp: walk_only_def)
qed

lemma walk_only_refl: "walk_only fx fx"
  by (simp add: walk_only_def)

lemma walk_only_trans: "walk_only a b \<Longrightarrow> walk_only b c \<Longrightarrow> walk_only a c"
  by (auto simp: walk_only_iff)

lemma walk_only_step:
  "\<not> quality_call e \<Longrightarrow> \<not> test_call e \<Longrightarrow> walk_only (fx @ [e]) fx' \<Longrightarrow> walk_only fx fx'"
  by (auto simp: walk_only_iff)

lemma collect_walk_only:
  "walk_only (snd acc) (snd (fst (collectFilesRecursively d b l acc)))"
  "walk_only (snd acc) (snd (fst (collect_entries d b es acc)))"
proof (induction d b l acc and d b es acc rule: collectFilesRecursively_collect_entries.induct)
  case (1 dir baseDir files fx)
  then show ?case by (simp add: walk_only_iff)
next
  case (2 dir baseDir entries files fx)
  then show ?case
    using walk_only_step[of "FsReaddir dir" fx] by simp
next
  case (3 dir baseDir acc)
  then show ?case by (simp add: walk_only_refl)
next
  case (4 dir baseDir n listing es acc)
  then show ?case
    by (auto split: prod.splits bool.splits intro: walk_only_trans)
next
  case (5 dir baseDir n contents es files fx)
  then show ?case
    using walk_only_step[of "FsReadFile (dir @ [n])" fx]
    by (auto split: option.splits)
next
  case (6 dir baseDir n es acc)
  then show ?case by simp
qed

lemma collect_trace:
  shows "\<not> list_ex test_call (snd (collectLibFiles w p))"
    and "\<not> list_ex quality_call (snd (collectLibFiles w p))"
    and "collection_ran p (snd (collectLibFiles w p))"
proof -
  let ?lib = "p @ [str ''lib'']"
  from collect_walk_only(1)[of "([], [FsPathExists ?lib])" ?lib ?lib "lib_listing w"]
  obtain ext where ext: "snd (fst (collectFilesRecursively ?lib ?lib (lib_listing w)
        ([], [FsPathExists ?lib]))) = [FsPathExists ?lib] @ ext"
      "\<not> list_ex quality_call ext" "\<not> list_ex test_call ext"
    by (auto simp: walk_only_iff)
  show "\<not> list_ex test_call (snd (collectLibFiles w p))"
    using ext by (simp add: collectLibFiles_def Let_def)
  show "\<not> list_ex quality_call (snd (collectLibFiles w p))"
    using ext by (simp add: collectLibFiles_def Let_def)
  show "collection_ran p (snd (collectLibFiles w p))"
    using ext by (simp add: collectLibFiles_def Let_def collection_ran_def)
qed

lemma test_trace:
  shows "\<not> list_ex quality_call (snd (runFlutterTest w p))"
  by (simp add: runFlutterTest_def)

lemma quiet_until_collection:
  assumes "fst (cloneRepository w u) = Some p"
  shows "\<not> list_ex quality_call (snd (cloneRepository w u) @ snd (checkRequiredFiles w p)
      @ snd (runFlutterPubGet w p) @ snd (checkBuild w p) @ snd (runFlutterTest w p)
      @ snd (collectLibFiles w p) @ [FsRemove p])"
  using assms
  by (simp add: clone_trace files_trace pubget_trace build_trace test_trace collect_trace)

subsection \<open>The orchestrator\<close>

lemma budget_after_tests:
  "js_sub (Num 20) (if b then js_add (Num 0) (if b then Num 5 else Num 0) else Num 0)
     = Num (20 - (if b then 5 else 0))"
  by (simp add: js_sub_def)

lemma evaluate_returns:
  assumes "isValidGitHubUrl w u"
    and "\<And>files m. 0 \<le> m \<Longrightarrow> \<exists>g. fst (evaluateWithGroq w files (Num m)) = Inr g"
  shows "\<exists>r. fst (evaluate w u) = Inr r"
proof (cases "fst (cloneRepository w u)")
  case None
  with assms(1) show ?thesis
    by (simp add: evaluate_def)
next
  case (Some p)
  let ?files = "fst (collectLibFiles w p)"
  let ?t = "if success (fst (runFlutterTest w p)) then 5 else 0 :: int"
  have "0 \<le> 20 - ?t"
    by simp
  from assms(2)[OF this] obtain g where "fst (evaluateWithGroq w ?files (Num (20 - ?t))) = Inr g"
    by blast
  then have "\<exists>r. fst (evaluate_steps w p) = Inr r"
    by (simp add: evaluate_steps_def Let_def budget_after_tests)
  with Some assms(1) show ?thesis
    by (auto simp: evaluate_def)
qed

subsection \<open>The example runs\<close>

lemma w_pass_gates:
  "isValidGitHubUrl w_pass url_ok"
  "fst (cloneRepository w_pass url_ok) = Some ws_ok"
  "valid (fst (checkRequiredFiles w_pass ws_ok))"
  "success (fst (runFlutterPubGet w_pass ws_ok))"
  "success (fst (checkBuild w_pass ws_ok))"
  "success (fst (runFlutterTest w_pass ws_ok))"
  by (simp_all add: isValidGitHubUrl_def cloneRepository_def Let_def tempDir_def
      checkRequiredFiles_def runFlutterPubGet_def checkBuild_def runFlutterTest_def
      w_pass_def ws_ok_def str_def starts_with_def)

lemma w_pass_collect:
  "fst (collectLibFiles w_pass ws_ok)
     = [\<lparr>file_path = str ''main.dart'', content = str ''void main() {}''\<rparr>]"
  by (simp add: collectLibFiles_def Let_def w_pass_def ws_ok_def ends_with_def path_string_def
      str_def)

lemma reply_text_cleaned:
  \<open>trim (remove_fence (str ''```'') (remove_fence (str ''```json'') reply_text))
     = str ''{"score": 99, "summary": "Solid work"}''\<close>
  by (simp add: reply_text_def str_def remove_fence.simps starts_with_def skip_line_feed_def
      trim_def is_space_def)

lemma parseInt_99: "parseInt (str ''99'') = Num 99"
  by (simp add: parseInt_def str_def is_space_def parse_digits_def is_digit_of_def digit_of_def
      digits_value_def js_number_def)

lemma w_pass_fields:
  "config_get w_pass (str ''GROQ_API_KEY'') = Some (str ''gsk_test'')"
  "http_post w_pass u b = HttpResponse (JObject [(str ''choices'',
        JArray [JObject [(str ''message'', JObject [(str ''content'', JString reply_text)])]])])"
  \<open>json_parse w_pass (str ''{"score": 99, "summary": "Solid work"}'')
     = Some (JObject [(str ''score'', JNumber (str ''99'')),
                      (str ''summary'', JString (str ''Solid work''))])\<close>
  by (simp_all add: w_pass_def)

lemma reply_groq:
  assumes "config_get w = config_get w_pass" and "http_post w = http_post w_pass"
    and "json_parse w = json_parse w_pass" and "0 \<le> m"
  shows "fst (evaluateWithGroq w files (Num m))
     = Inr \<lparr>eval_score = Num (min 99 m), eval_summary = str ''Solid work'', strengths = [],
            weaknesses = [], recommendations = []\<rparr>"
proof -
  have "parse_reply w reply_text (Num m)
     = Inr \<lparr>eval_score = Num (min 99 m), eval_summary = str ''Solid work'', strengths = [],
            weaknesses = [], recommendations = []\<rparr>"
    using assms(4)
    by (simp add: parse_reply_def reply_text_cleaned assms(3) w_pass_fields from_parsed_def
        parsed_score_def parsed_summary_def parsed_items_def parsed_recommendations_def
        to_string_opt_def or_val_def parseInt_99 str_eq_iff str_empty_iff length_str)
  moreover have "reply_text \<noteq> []"
    by (simp add: reply_text_def str_empty_iff)
  ultimately have "groq_try w prompt (Num m)
     = Inr \<lparr>eval_score = Num (min 99 m), eval_summary = str ''Solid work'', strengths = [],
            weaknesses = [], recommendations = []\<rparr>" for prompt
    by (simp add: groq_try_def assms(2) w_pass_fields str_eq_iff)
  then show ?thesis
    by (simp add: evaluateWithGroq_def Let_def assms(1) w_pass_fields str_empty_iff)
qed

lemma w_pass_groq:
  "fst (evaluateWithGroq w_pass files (Num 15))
     = Inr \<lparr>eval_score = Num 15, eval_summary = str ''Solid work'', strengths = [],
            weaknesses = [], recommendations = []\<rparr>"
  using reply_groq[of w_pass 15 files] by simp

lemma example_gates:
  assumes "url_hostname w = url_hostname w_pass" and "cwd w = cwd w_pass" and "now w = now w_pass"
    and "path_exists w = path_exists w_pass" and "clone_ok w = clone_ok w_pass"
  shows "isValidGitHubUrl w url_ok"
    and "fst (cloneRepository w url_ok) = Some ws_ok"
    and "valid (fst (checkRequiredFiles w ws_ok))"
  using assms
  by (simp_all add: isValidGitHubUrl_def cloneRepository_def Let_def tempDir_def
      checkRequiredFiles_def w_pass_def ws_ok_def)

lemma example_build:
  assumes "exec w (str ''flutter pub get'') = Resolved [] []"
    and "exec w (str ''flutter analyze'') = Resolved [] []"
  shows "success (fst (runFlutterPubGet w p))" and "success (fst (checkBuild w p))"
  using assms by (simp_all add: runFlutterPubGet_def checkBuild_def str_empty_iff)

lemma example_exec:
  "exec w_pass (str ''flutter pub get'') = Resolved [] []"
  "exec w_pass (str ''flutter analyze'') = Resolved [] []"
  "exec w_pass (str ''flutter test'') = Resolved (str ''00:02 +3: All tests passed!'') []"
  by (simp_all add: w_pass_def str_eq_iff)

lemma example_tests_pass:
  assumes "exec w (str ''flutter test'') = Resolved (str ''00:02 +3: All tests passed!'') []"
  shows "success (fst (runFlutterTest w p))"
  using assms by (simp add: runFlutterTest_def str_def starts_with_def)

lemma example_tests_fail:
  assumes "exec w (str ''flutter test'') = Resolved (str ''00:03 +1 -1: Some tests failed.'') []"
  shows "\<not> success (fst (runFlutterTest w p))"
  using assms by (simp add: runFlutterTest_def str_def starts_with_def)

lemma collect_one_file:
  assumes "path_exists w (p @ [str ''lib''])"
    and "lib_listing w = Some [FileEntry (str ''main.dart'') (Some c)]"
  shows "fst (collectLibFiles w p) = [\<lparr>file_path = str ''main.dart'', content = c\<rparr>]"
  using assms
  by (simp add: collectLibFiles_def Let_def ends_with_def path_string_def str_def)

lemma collect_no_file:
  assumes "lib_listing w = Some [FileEntry (str ''main.dart'') None]
      \<or> lib_listing w = Some [OtherEntry (str ''main.dart'')]"
  shows "fst (collectLibFiles w p) = []"
  using assms
  by (auto simp: collectLibFiles_def Let_def ends_with_def str_def)

lemma w_pass_fs:
  "path_exists w_pass p = (3 < length p)"
  "lib_listing w_pass = Some [FileEntry (str ''main.dart'') (Some (str ''void main() {}''))]"
  "length ws_ok = 3"
  by (simp_all add: w_pass_def ws_ok_def)

lemma variant_gates:
  "isValidGitHubUrl w_llm_down url_ok \<and> fst (cloneRepository w_llm_down url_ok) = Some ws_ok
     \<and> valid (fst (checkRequiredFiles w_llm_down ws_ok))"
  "isValidGitHubUrl w_no_key url_ok \<and> fst (cloneRepository w_no_key url_ok) = Some ws_ok
     \<and> valid (fst (checkRequiredFiles w_no_key ws_ok))"
  "isValidGitHubUrl w_tests_fail url_ok \<and> fst (cloneRepository w_tests_fail url_ok) = Some ws_ok
     \<and> valid (fst (checkRequiredFiles w_tests_fail ws_ok))"
  "isValidGitHubUrl w_tests_fail_link url_ok
     \<and> fst (cloneRepository w_tests_fail_link url_ok) = Some ws_ok
     \<and> valid (fst (checkRequiredFiles w_tests_fail_link ws_ok))"
  "isValidGitHubUrl w_unreadable url_ok \<and> fst (cloneRepository w_unreadable url_ok) = Some ws_ok
     \<and> valid (fst (checkRequiredFiles w_unreadable ws_ok))"
  "isValidGitHubUrl w_rate_limited url_ok
     \<and> fst (cloneRepository w_rate_limited url_ok) = Some ws_ok
     \<and> valid (fst (checkRequiredFiles w_rate_limited ws_ok))"
  "isValidGitHubUrl w_link url_ok \<and> fst (cloneRepository w_link url_ok) = Some ws_ok
     \<and> valid (fst (checkRequiredFiles w_link ws_ok))"
  by (simp_all add: example_gates w_link_def w_llm_down_def w_no_key_def w_tests_fail_def
      w_tests_fail_link_def w_unreadable_def w_rate_limited_def)

lemma variant_build:
  "success (fst (runFlutterPubGet w_llm_down p)) \<and> success (fst (checkBuild w_llm_down p))
     \<and> success (fst (runFlutterTest w_llm_down p))"
  "success (fst (runFlutterPubGet w_no_key p)) \<and> success (fst (checkBuild w_no_key p))
     \<and> success (fst (runFlutterTest w_no_key p))"
  "success (fst (runFlutterPubGet w_tests_fail p)) \<and> success (fst (checkBuild w_tests_fail p))
     \<and> \<not> success (fst (runFlutterTest w_tests_fail p))"
  "success (fst (runFlutterPubGet w_tests_fail_link p))
     \<and> success (fst (checkBuild w_tests_fail_link p))
     \<and> \<not> success (fst (runFlutterTest w_tests_fail_link p))"
  "success (fst (runFlutterPubGet w_unreadable p)) \<and> success (fst (checkBuild w_unreadable p))
     \<and> success (fst (runFlutterTest w_unreadable p))"
  "success (fst (runFlutterPubGet w_rate_limited p)) \<and> success (fst (checkBuild w_rate_limited p))
     \<and> success (fst (runFlutterTest w_rate_limited p))"
  "success (fst (runFlutterPubGet w_link p)) \<and> success (fst (checkBuild w_link p))
     \<and> success (fst (runFlutterTest w_link p))"
  by (simp_all add: example_build w_link_def example_tests_pass example_tests_fail example_exec
      w_llm_down_def w_no_key_def w_tests_fail_def w_tests_fail_link_def w_unreadable_def
      w_rate_limited_def str_eq_iff)

lemma variant_collect:
  "fst (collectLibFiles w_llm_down ws_ok) \<noteq> []"
  "fst (collectLibFiles w_no_key ws_ok) \<noteq> []"
  "fst (collectLibFiles w_tests_fail ws_ok) \<noteq> []"
  "fst (collectLibFiles w_tests_fail_link ws_ok) = []"
  "fst (collectLibFiles w_unreadable ws_ok) = []"
  "fst (collectLibFiles w_rate_limited ws_ok) \<noteq> []"
  "fst (collectLibFiles w_link ws_ok) = []"
  by (simp_all add: collect_one_file w_link_def collect_no_file w_pass_fs w_llm_down_def w_no_key_def
      w_tests_fail_def w_tests_fail_link_def w_unreadable_def w_rate_limited_def)

lemma variant_key:
  "config_get w_llm_down (str ''GROQ_API_KEY'') = Some (str ''gsk_test'')"
  "config_get w_tests_fail (str ''GROQ_API_KEY'') = Some (str ''gsk_test'')"
  "config_get w_rate_limited (str ''GROQ_API_KEY'') = Some (str ''gsk_test'')"
  "config_get w_no_key (str ''GROQ_API_KEY'') = None"
  "str ''gsk_test'' \<noteq> []"
  by (simp_all add: w_llm_down_def w_tests_fail_def w_rate_limited_def w_no_key_def
      w_pass_fields str_empty_iff)

lemma w_error_object_stages:
  "isValidGitHubUrl w_error_object url_ok"
  "fst (cloneRepository w_error_object url_ok) = Some ws_ok"
  "valid (fst (checkRequiredFiles w_error_object ws_ok))"
  "success (fst (runFlutterPubGet w_error_object p))"
  "success (fst (checkBuild w_error_object p))"
  "success (fst (runFlutterTest w_error_object p))"
  "fst (collectLibFiles w_error_object ws_ok) \<noteq> []"
  by (simp_all add: example_gates example_build example_tests_pass example_exec
      collect_one_file w_pass_fs w_error_object_def str_eq_iff)

lemma w_tests_fail_groq:
  "0 \<le> m \<Longrightarrow> \<exists>g. fst (evaluateWithGroq w_tests_fail files (Num m)) = Inr g"
  using reply_groq[of w_tests_fail m files] by (simp add: w_tests_fail_def)

lemma llm_failure_with_printable_message:
  assumes "isValidGitHubUrl w repoUrl"
    and "fst (cloneRepository w repoUrl) = Some repoPath"
    and "valid (fst (checkRequiredFiles w repoPath))"
    and "success (fst (runFlutterPubGet w repoPath))"
    and "success (fst (checkBuild w repoPath))"
    and "fst (collectLibFiles w repoPath) \<noteq> []"
    and "config_get w (str ''GROQ_API_KEY'') = Some k" and "k \<noteq> []"
    and "t = (if success (fst (runFlutterTest w repoPath)) then 5 else 0)"
    and "http_post w groqApiUrl (build_prompt (fst (collectLibFiles w repoPath)) (Num (20 - t)))
           = HttpError m data"
    and "failure_text data m = Some printed"
  shows "fst (evaluateWithGroq w (fst (collectLibFiles w repoPath)) (Num (20 - t)))
           = Inr \<lparr>eval_score = Num 0, eval_summary = str ''Evaluation failed: '' @ printed,
                  strengths = [], weaknesses = [], recommendations = []\<rparr>
       \<and> (\<exists>r. fst (evaluate w repoUrl) = Inr r
             \<and> totalScore r = Num t \<and> maxScore r = Num 20
             \<and> testsPassed (details r) = success (fst (runFlutterTest w repoPath))
             \<and> groqEvaluation (details r)
                 = Some \<lparr>eval_score = Num 0,
                         eval_summary = str ''Evaluation failed: '' @ printed,
                         strengths = [], weaknesses = [], recommendations = []\<rparr>
             \<and> summary r = Some (str ''Evaluation failed: '' @ printed)
             \<and> length (checks r) = 6)"
proof -
  let ?files = "fst (collectLibFiles w repoPath)"
  have g: "fst (evaluateWithGroq w ?files (Num (20 - t)))
      = Inr \<lparr>eval_score = Num 0, eval_summary = str ''Evaluation failed: '' @ printed,
             strengths = [], weaknesses = [], recommendations = []\<rparr>"
    using assms(7,8,10,11) by (simp add: evaluateWithGroq_with_key groq_try_def)
  have ne: "str ''Evaluation failed: '' @ printed \<noteq> []"
    by (simp add: str_empty_iff)
  show ?thesis
  proof (cases "success (fst (runFlutterTest w repoPath))")
    case True
    with assms(1-6,9) g ne show ?thesis
      by (simp add: evaluate_def evaluate_steps_def Let_def buildResponse_def js_sub_def)
  next
    case False
    with assms(1-6,9) g ne show ?thesis
      by (simp add: evaluate_def evaluate_steps_def Let_def buildResponse_def js_sub_def)
  qed
qed

lemma failure_text_plain:
  "failure_text None m = Some m"
  "failure_text (Some (JObject [(str ''error'', JObject [(str ''message'', JString t)])])) m
     = Some (or_str (Some t) m)"
  by (simp_all add: failure_text_def or_val_def to_string_opt_def)

section \<open>Specified properties\<close>

text \<open>
  C1. When the repository was cloned and has its required files, and \<open>flutter pub get\<close>
  or the build check fails, \<open>evaluate\<close> returns a response whose total score is 5 (the
  fixed partial value, so at most 5), with no test check and no Groq check in its list and
  no evaluation record; the test stage, the collector and the evaluator are not run.
\<close>

theorem gating_failure_caps_score:
  assumes "isValidGitHubUrl w repoUrl"
    and "fst (cloneRepository w repoUrl) = Some repoPath"
    and "valid (fst (checkRequiredFiles w repoPath))"
    and "\<not> success (fst (runFlutterPubGet w repoPath)) \<or> \<not> success (fst (checkBuild w repoPath))"
  shows "\<exists>r. fst (evaluate w repoUrl) = Inr r \<and> totalScore r = Num 5
           \<and> checks_named (str ''Flutter Test'') r = []
           \<and> checks_named (str ''Groq Code Evaluation'') r = []
           \<and> groqEvaluation (details r) = None
           \<and> \<not> test_stage_ran (snd (evaluate w repoUrl))
           \<and> \<not> collection_ran repoPath (snd (evaluate w repoUrl))
           \<and> \<not> quality_evaluation_ran (snd (evaluate w repoUrl))"
proof (cases "success (fst (runFlutterPubGet w repoPath))")
  case False
  with assms(1-3) show ?thesis
    by (simp add: evaluate_def evaluate_steps_def Let_def buildResponse_def checks_named_def
        test_stage_ran_def collection_ran_def quality_evaluation_ran_def
        clone_trace files_trace pubget_trace str_def)
next
  case True
  with assms(4) have "\<not> success (fst (checkBuild w repoPath))"
    by simp
  with True assms(1-3) show ?thesis
    by (simp add: evaluate_def evaluate_steps_def Let_def buildResponse_def checks_named_def
        test_stage_ran_def collection_ran_def quality_evaluation_ran_def
        clone_trace files_trace pubget_trace build_trace str_def)
qed

theorem gating_failure_caps_score_witness:
  "isValidGitHubUrl w_install_fails url_ok
   \<and> fst (cloneRepository w_install_fails url_ok) = Some ws_ok
   \<and> valid (fst (checkRequiredFiles w_install_fails ws_ok))
   \<and> \<not> success (fst (runFlutterPubGet w_install_fails ws_ok))
   \<and> (\<exists>r. fst (evaluate w_install_fails url_ok) = Inr r \<and> totalScore r = Num 5
           \<and> checks_named (str ''Flutter Test'') r = []
           \<and> checks_named (str ''Groq Code Evaluation'') r = []
           \<and> groqEvaluation (details r) = None
           \<and> \<not> test_stage_ran (snd (evaluate w_install_fails url_ok))
           \<and> \<not> collection_ran ws_ok (snd (evaluate w_install_fails url_ok))
           \<and> \<not> quality_evaluation_ran (snd (evaluate w_install_fails url_ok)))"
proof -
  have h1: "isValidGitHubUrl w_install_fails url_ok"
    by (simp add: isValidGitHubUrl_def w_install_fails_def w_pass_def)
  have h2: "fst (cloneRepository w_install_fails url_ok) = Some ws_ok"
    by (simp add: cloneRepository_def Let_def tempDir_def w_install_fails_def w_pass_def ws_ok_def)
  have h3: "valid (fst (checkRequiredFiles w_install_fails ws_ok))"
    by (simp add: checkRequiredFiles_def Let_def w_install_fails_def w_pass_def ws_ok_def)
  have h4: "\<not> success (fst (runFlutterPubGet w_install_fails ws_ok))"
    by (simp add: runFlutterPubGet_def w_install_fails_def)
  from h4 have "\<not> success (fst (runFlutterPubGet w_install_fails ws_ok))
      \<or> \<not> success (fst (checkBuild w_install_fails ws_ok))"
    by simp
  from gating_failure_caps_score[OF h1 h2 h3 this] h1 h2 h3 h4 show ?thesis
    by simp
qed

text \<open>
  C2. In every response that \<open>evaluate\<close> returns the total score is a number between 0
  and 20, and where the response has an evaluation record its score is a number between
  0 and the budget left after the test stage (20, or 15 when the tests passed), whatever
  the model reported; the total is the test score plus that score.
\<close>

theorem scores_within_budget:
  assumes "fst (evaluate w repoUrl) = Inr r"
  shows "(\<exists>t. totalScore r = Num t \<and> 0 \<le> t \<and> t \<le> 20)
       \<and> (case groqEvaluation (details r) of
             None \<Rightarrow> True
           | Some g \<Rightarrow>
               \<exists>q. eval_score g = Num q \<and> 0 \<le> q
                 \<and> q \<le> 20 - (if testsPassed (details r) then 5 else 0)
                 \<and> totalScore r = Num ((if testsPassed (details r) then 5 else 0) + q))"
proof (cases "fst (cloneRepository w repoUrl)")
  case None
  with assms show ?thesis
    by (auto simp: evaluate_def buildResponse_def split: if_splits)
next
  case (Some p)
  let ?t = "if success (fst (runFlutterTest w p)) then 5 else 0 :: int"
  let ?files = "fst (collectLibFiles w p)"
  from assms Some have steps: "fst (evaluate_steps w p) = Inr r"
    by (auto simp: evaluate_def split: if_splits sum.splits)
  show ?thesis
  proof (cases "valid (fst (checkRequiredFiles w p)) \<and> success (fst (runFlutterPubGet w p))
      \<and> success (fst (checkBuild w p)) \<and> ?files \<noteq> []")
    case False
    with steps show ?thesis
      by (auto simp: evaluate_steps_def Let_def buildResponse_def split: if_splits)
  next
    case True
    with steps obtain g where g: "fst (evaluateWithGroq w ?files (Num (20 - ?t))) = Inr g"
      by (cases "fst (evaluateWithGroq w ?files (Num (20 - ?t)))")
         (simp_all add: evaluate_steps_def Let_def budget_after_tests)
    have "0 \<le> 20 - ?t"
      by simp
    from evaluateWithGroq_score[OF g this] obtain q where
      q: "eval_score g = Num q" "0 \<le> q" "q \<le> 20 - ?t"
      by blast
    from steps True g q show ?thesis
      by (auto simp: evaluate_steps_def Let_def buildResponse_def budget_after_tests split: if_splits)
  qed
qed

theorem scores_within_budget_witness:
  "\<exists>r. fst (evaluate w_pass url_ok) = Inr r
      \<and> totalScore r = Num 20 \<and> testsPassed (details r)
      \<and> (\<exists>g. groqEvaluation (details r) = Some g \<and> eval_score g = Num 15)
      \<and> (\<exists>t. totalScore r = Num t \<and> 0 \<le> t \<and> t \<le> 20)
      \<and> (case groqEvaluation (details r) of
            None \<Rightarrow> True
          | Some g \<Rightarrow>
              \<exists>q. eval_score g = Num q \<and> 0 \<le> q
                \<and> q \<le> 20 - (if testsPassed (details r) then 5 else 0)
                \<and> totalScore r = Num ((if testsPassed (details r) then 5 else 0) + q))"
proof -
  have "\<exists>r. fst (evaluate w_pass url_ok) = Inr r
      \<and> totalScore r = Num 20 \<and> testsPassed (details r)
      \<and> (\<exists>g. groqEvaluation (details r) = Some g \<and> eval_score g = Num 15)"
    by (simp add: evaluate_def evaluate_steps_def Let_def buildResponse_def js_sub_def
        w_pass_gates w_pass_collect w_pass_groq)
  then obtain r where r: "fst (evaluate w_pass url_ok) = Inr r"
      "totalScore r = Num 20" "testsPassed (details r)"
      "\<exists>g. groqEvaluation (details r) = Some g \<and> eval_score g = Num 15"
    by blast
  from scores_within_budget[OF r(1)] r show ?thesis
    by blast
qed

text \<open>
  C3. The \<open>catch\<close> of \<open>evaluateWithGroq\<close> returns the default result only when the value
  it interpolates into the summary converts to a string (\<open>llm_failure_with_printable_message\<close>:
  then the result has score 0 and the summary \<open>Evaluation failed: \<close> followed by that
  text, and \<open>evaluate\<close> returns its full response). When the endpoint answers 500 with the
  body \<open>{"error": {"message": {"toString": 0}}}\<close> the conversion raises a \<open>TypeError\<close>
  inside the \<open>catch\<close>: \<open>evaluateWithGroq\<close> throws, and \<open>evaluate\<close> throws an
  \<open>InternalServerErrorException\<close> instead of returning a response.
\<close>

theorem llm_failure_escapes_catch:
  "isValidGitHubUrl w_error_object url_ok
   \<and> fst (cloneRepository w_error_object url_ok) = Some ws_ok
   \<and> valid (fst (checkRequiredFiles w_error_object ws_ok))
   \<and> success (fst (runFlutterPubGet w_error_object ws_ok))
   \<and> success (fst (checkBuild w_error_object ws_ok))
   \<and> success (fst (runFlutterTest w_error_object ws_ok))
   \<and> fst (collectLibFiles w_error_object ws_ok) \<noteq> []
   \<and> config_get w_error_object (str ''GROQ_API_KEY'') = Some (str ''gsk_test'')
   \<and> http_post w_error_object groqApiUrl prompt
        = HttpError (str ''Request failed with status code 500'')
            (Some (JObject [(str ''error'', JObject [(str ''message'',
               JObject [(str ''toString'', JNumber (str ''0''))])])]))
   \<and> fst (evaluateWithGroq w_error_object files (Num 15))
        = Inl (Error (str ''Cannot convert object to primitive value''))
   \<and> fst (evaluate w_error_object url_ok)
        = Inl (InternalServerErrorException
            (str ''Evaluation failed: Cannot convert object to primitive value''))"
proof -
  have post: "http_post w_error_object groqApiUrl p
        = HttpError (str ''Request failed with status code 500'')
            (Some (JObject [(str ''error'', JObject [(str ''message'',
               JObject [(str ''toString'', JNumber (str ''0''))])])]))" for p
    by (simp add: w_error_object_def)
  have conv: "failure_text
      (Some (JObject [(str ''error'', JObject [(str ''message'',
               JObject [(str ''toString'', JNumber (str ''0''))])])]))
      (str ''Request failed with status code 500'') = None"
    by (simp add: failure_text_def or_val_def to_string_opt_def)
  have msg: "type_error_message w_error_object ConvertToPrimitive
      = str ''Cannot convert object to primitive value''"
    by (simp add: w_error_object_def w_pass_def)
  have key: "config_get w_error_object (str ''GROQ_API_KEY'') = Some (str ''gsk_test'')"
    by (simp add: w_error_object_def w_pass_fields)
  have g: "fst (evaluateWithGroq w_error_object fs m)
      = Inl (Error (str ''Cannot convert object to primitive value''))" for fs m
    using evaluateWithGroq_with_key(1)[OF key variant_key(5)]
    by (simp add: groq_try_def post conv msg)
  have wrapped: "str ''Evaluation failed: '' @ str ''Cannot convert object to primitive value''
      = str ''Evaluation failed: Cannot convert object to primitive value''"
    by (simp add: str_def)
  have nonempty: "str ''Cannot convert object to primitive value'' \<noteq> []"
    by (simp add: str_empty_iff)
  have "fst (evaluate w_error_object url_ok)
        = Inl (InternalServerErrorException
            (str ''Evaluation failed: Cannot convert object to primitive value''))"
    using w_error_object_stages g wrapped nonempty
    by (simp add: evaluate_def evaluate_steps_def Let_def)
  with w_error_object_stages key post g show ?thesis
    by simp
qed

text \<open>
  C4. When the evaluator is reached and \<open>GROQ_API_KEY\<close> is not configured (absent or
  empty), \<open>evaluateWithGroq\<close> raises an \<open>InternalServerErrorException\<close> instead of
  returning a result with score 0, and \<open>evaluate\<close> raises that same exception unchanged.
\<close>

theorem missing_credential_is_server_error:
  assumes "isValidGitHubUrl w repoUrl"
    and "fst (cloneRepository w repoUrl) = Some repoPath"
    and "valid (fst (checkRequiredFiles w repoPath))"
    and "success (fst (runFlutterPubGet w repoPath))"
    and "success (fst (checkBuild w repoPath))"
    and "fst (collectLibFiles w repoPath) \<noteq> []"
    and "config_get w (str ''GROQ_API_KEY'') = None \<or> config_get w (str ''GROQ_API_KEY'') = Some []"
  shows "fst (evaluateWithGroq w (fst (collectLibFiles w repoPath)) m)
           = Inl (InternalServerErrorException
               (str ''Groq API key not configured. Please set GROQ_API_KEY environment variable.''))
       \<and> fst (evaluate w repoUrl)
           = Inl (InternalServerErrorException
               (str ''Groq API key not configured. Please set GROQ_API_KEY environment variable.''))"
  using assms(1-6) evaluateWithGroq_without_key[OF assms(7)]
  by (simp add: evaluate_def evaluate_steps_def Let_def)

theorem missing_credential_is_server_error_witness:
  "isValidGitHubUrl w_no_key url_ok
   \<and> fst (cloneRepository w_no_key url_ok) = Some ws_ok
   \<and> valid (fst (checkRequiredFiles w_no_key ws_ok))
   \<and> success (fst (runFlutterPubGet w_no_key ws_ok))
   \<and> success (fst (checkBuild w_no_key ws_ok))
   \<and> fst (collectLibFiles w_no_key ws_ok) \<noteq> []
   \<and> config_get w_no_key (str ''GROQ_API_KEY'') = None
   \<and> fst (evaluateWithGroq w_no_key (fst (collectLibFiles w_no_key ws_ok)) (Num 15))
        = Inl (InternalServerErrorException
            (str ''Groq API key not configured. Please set GROQ_API_KEY environment variable.''))
   \<and> fst (evaluate w_no_key url_ok)
        = Inl (InternalServerErrorException
            (str ''Groq API key not configured. Please set GROQ_API_KEY environment variable.''))"
  using missing_credential_is_server_error[of w_no_key url_ok ws_ok "Num 15"]
    variant_gates(2) variant_build(2) variant_collect(2) variant_key(4)
  by simp

text \<open>
  C5. A locator that does not parse as a URL, or whose host name is neither
  \<open>github.com\<close> nor \<open>www.github.com\<close>, is rejected with a \<open>BadRequestException\<close>, and no
  call to the file system, git, the toolchain or the network is made.
\<close>

theorem invalid_locator_rejected_without_effects:
  assumes "case url_hostname w repoUrl of
             None \<Rightarrow> True
           | Some h \<Rightarrow> h \<noteq> str ''github.com'' \<and> h \<noteq> str ''www.github.com''"
  shows "evaluate w repoUrl
           = (Inl (BadRequestException (str ''Invalid GitHub repository URL'')), [])"
  using assms
  by (simp add: evaluate_def isValidGitHubUrl_def split: option.splits)

theorem invalid_locator_rejected_without_effects_witness:
  "url_hostname w_pass url_other_host = Some (str ''example.org'')
   \<and> str ''example.org'' \<noteq> str ''github.com''
   \<and> str ''example.org'' \<noteq> str ''www.github.com''
   \<and> evaluate w_pass url_other_host
         = (Inl (BadRequestException (str ''Invalid GitHub repository URL'')), [])
   \<and> url_hostname w_pass (str ''not a url'') = None
   \<and> evaluate w_pass (str ''not a url'')
         = (Inl (BadRequestException (str ''Invalid GitHub repository URL'')), [])"
proof -
  have h: "url_hostname w_pass url_other_host = Some (str ''example.org'')"
    by (simp add: w_pass_def url_other_host_def url_ok_def str_def)
  have n: "str ''example.org'' \<noteq> str ''github.com''" "str ''example.org'' \<noteq> str ''www.github.com''"
    by (simp_all add: str_def)
  have h2: "url_hostname w_pass (str ''not a url'') = None"
    by (simp add: w_pass_def url_other_host_def url_ok_def str_def)
  from h n h2
    invalid_locator_rejected_without_effects[of w_pass url_other_host]
    invalid_locator_rejected_without_effects[of w_pass "str ''not a url''"]
  show ?thesis
    by simp
qed

text \<open>
  C6. When the build check passes and the test stage fails, the collector still runs;
  the evaluator runs whenever files were collected; and every response returned has one
  test check, failed and with score 0, and a total that is the evaluation score alone (0
  when there is no evaluation record).
\<close>

theorem test_failure_is_not_gating:
  assumes "isValidGitHubUrl w repoUrl"
    and "fst (cloneRepository w repoUrl) = Some repoPath"
    and "valid (fst (checkRequiredFiles w repoPath))"
    and "success (fst (runFlutterPubGet w repoPath))"
    and "success (fst (checkBuild w repoPath))"
    and "\<not> success (fst (runFlutterTest w repoPath))"
  shows "collection_ran repoPath (snd (evaluate w repoUrl))
       \<and> (fst (collectLibFiles w repoPath) \<noteq> [] \<longrightarrow> quality_evaluation_ran (snd (evaluate w repoUrl)))
       \<and> (\<forall>r. fst (evaluate w repoUrl) = Inr r \<longrightarrow>
             checks_named (str ''Flutter Test'') r
               = [\<lparr>name = str ''Flutter Test'', passed = False,
                   message = Some (or_str (stage_message (fst (runFlutterTest w repoPath)))
                                     (str ''Tests failed or no tests found'')),
                   score = Num 0\<rparr>]
             \<and> \<not> testsPassed (details r)
             \<and> totalScore r = (case groqEvaluation (details r) of
                                 None \<Rightarrow> Num 0 | Some g \<Rightarrow> eval_score g))"
proof -
  let ?files = "fst (collectLibFiles w repoPath)"
  have ran: "collection_ran repoPath (snd (evaluate w repoUrl))"
    using assms collect_trace(3)[of repoPath w]
    by (simp add: evaluate_def evaluate_steps_def Let_def collection_ran_def
        split: sum.splits)
  have q: "quality_evaluation_ran (snd (evaluate w repoUrl))" if "?files \<noteq> []"
    using assms that
    by (auto simp: evaluate_def evaluate_steps_def Let_def quality_evaluation_ran_def
        evaluateWithGroq_def split: sum.splits)
  have r: "checks_named (str ''Flutter Test'') r
               = [\<lparr>name = str ''Flutter Test'', passed = False,
                   message = Some (or_str (stage_message (fst (runFlutterTest w repoPath)))
                                     (str ''Tests failed or no tests found'')),
                   score = Num 0\<rparr>]
             \<and> \<not> testsPassed (details r)
             \<and> totalScore r = (case groqEvaluation (details r) of
                                 None \<Rightarrow> Num 0 | Some g \<Rightarrow> eval_score g)"
    if ret: "fst (evaluate w repoUrl) = Inr r" for r
  proof (cases "?files = []")
    case True
    with assms ret show ?thesis
      by (auto simp: evaluate_def evaluate_steps_def Let_def buildResponse_def checks_named_def
          str_eq_iff)
  next
    case False
    with assms ret obtain g where g: "fst (evaluateWithGroq w ?files (Num 20)) = Inr g"
      by (cases "fst (evaluateWithGroq w ?files (Num 20))")
         (simp_all add: evaluate_def evaluate_steps_def Let_def js_sub_def)
    from evaluateWithGroq_score[OF g] obtain x where "eval_score g = Num x" "0 \<le> x" "x \<le> 20"
      by auto
    with assms ret False g show ?thesis
      by (auto simp: evaluate_def evaluate_steps_def Let_def buildResponse_def checks_named_def
          str_eq_iff js_sub_def)
  qed
  from ran q r show ?thesis
    by blast
qed

theorem test_failure_is_not_gating_witness:
  "isValidGitHubUrl w_tests_fail url_ok
   \<and> fst (cloneRepository w_tests_fail url_ok) = Some ws_ok
   \<and> valid (fst (checkRequiredFiles w_tests_fail ws_ok))
   \<and> success (fst (runFlutterPubGet w_tests_fail ws_ok))
   \<and> success (fst (checkBuild w_tests_fail ws_ok))
   \<and> \<not> success (fst (runFlutterTest w_tests_fail ws_ok))
   \<and> fst (collectLibFiles w_tests_fail ws_ok) \<noteq> []
   \<and> collection_ran ws_ok (snd (evaluate w_tests_fail url_ok))
   \<and> quality_evaluation_ran (snd (evaluate w_tests_fail url_ok))
   \<and> (\<exists>r. fst (evaluate w_tests_fail url_ok) = Inr r
         \<and> checks_named (str ''Flutter Test'') r
             = [\<lparr>name = str ''Flutter Test'', passed = False,
                 message = Some (str ''Tests failed or no tests found''), score = Num 0\<rparr>]
         \<and> \<not> testsPassed (details r)
         \<and> totalScore r = (case groqEvaluation (details r) of
                             None \<Rightarrow> Num 0 | Some g \<Rightarrow> eval_score g))"
proof -
  have m: "stage_message (fst (runFlutterTest w_tests_fail ws_ok))
      = Some (str ''Tests failed or no tests found'')"
    by (simp add: runFlutterTest_def w_tests_fail_def str_eq_iff)
       (simp add: str_def starts_with_def)
  have ne: "str ''Tests failed or no tests found'' \<noteq> []"
    by (simp add: str_empty_iff)
  obtain r where r: "fst (evaluate w_tests_fail url_ok) = Inr r"
    using evaluate_returns[of w_tests_fail url_ok] variant_gates(3) w_tests_fail_groq
    by blast
  from test_failure_is_not_gating[of w_tests_fail url_ok ws_ok]
    variant_gates(3) variant_build(3) variant_collect(3) m ne r
  show ?thesis
    by simp
qed

text \<open>
  The sentence of the specification, that the evaluator runs after every failed test
  stage, does not hold: here the tests fail, \<open>lib/main.dart\<close> is a symbolic link, nothing
  is collected, and the response is returned without the evaluator being called.
\<close>

theorem test_failure_counterexample:
  "isValidGitHubUrl w_tests_fail_link url_ok
   \<and> fst (cloneRepository w_tests_fail_link url_ok) = Some ws_ok
   \<and> valid (fst (checkRequiredFiles w_tests_fail_link ws_ok))
   \<and> success (fst (runFlutterPubGet w_tests_fail_link ws_ok))
   \<and> success (fst (checkBuild w_tests_fail_link ws_ok))
   \<and> \<not> success (fst (runFlutterTest w_tests_fail_link ws_ok))
   \<and> \<not> quality_evaluation_ran (snd (evaluate w_tests_fail_link url_ok))
   \<and> (\<exists>r. fst (evaluate w_tests_fail_link url_ok) = Inr r
         \<and> checks_named (str ''Groq Code Evaluation'') r = []
         \<and> groqEvaluation (details r) = None)"
proof -
  have "snd (evaluate w_tests_fail_link url_ok)
      = snd (cloneRepository w_tests_fail_link url_ok)
        @ snd (checkRequiredFiles w_tests_fail_link ws_ok)
        @ snd (runFlutterPubGet w_tests_fail_link ws_ok)
        @ snd (checkBuild w_tests_fail_link ws_ok)
        @ snd (runFlutterTest w_tests_fail_link ws_ok)
        @ snd (collectLibFiles w_tests_fail_link ws_ok) @ [FsRemove ws_ok]"
    using variant_gates(4) variant_build(4) variant_collect(4)
    by (simp add: evaluate_def evaluate_steps_def Let_def)
  then have "\<not> quality_evaluation_ran (snd (evaluate w_tests_fail_link url_ok))"
    using quiet_until_collection[of w_tests_fail_link url_ok ws_ok] variant_gates(4)
    by (simp add: quality_evaluation_ran_def)
  moreover have "\<exists>r. fst (evaluate w_tests_fail_link url_ok) = Inr r
         \<and> checks_named (str ''Groq Code Evaluation'') r = []
         \<and> groqEvaluation (details r) = None"
    using variant_gates(4) variant_build(4) variant_collect(4)
    by (simp add: evaluate_def evaluate_steps_def Let_def buildResponse_def checks_named_def
        str_eq_iff)
  ultimately show ?thesis
    using variant_gates(4) variant_build(4) by simp
qed

text \<open>
  C7. When every gating stage passes and no file is collected, \<open>evaluate\<close> returns a
  response right after the collection: the total is the test score (5 or 0), the list
  holds the five checks made so far and no Groq check, there is no evaluation record, and
  the evaluator is not run.
\<close>

theorem empty_collection_ends_the_run:
  assumes "isValidGitHubUrl w repoUrl"
    and "fst (cloneRepository w repoUrl) = Some repoPath"
    and "valid (fst (checkRequiredFiles w repoPath))"
    and "success (fst (runFlutterPubGet w repoPath))"
    and "success (fst (checkBuild w repoPath))"
    and "fst (collectLibFiles w repoPath) = []"
  shows "\<exists>r. fst (evaluate w repoUrl) = Inr r
           \<and> totalScore r = (if success (fst (runFlutterTest w repoPath)) then Num 5 else Num 0)
           \<and> length (checks r) = 5
           \<and> checks_named (str ''Groq Code Evaluation'') r = []
           \<and> groqEvaluation (details r) = None
           \<and> collection_ran repoPath (snd (evaluate w repoUrl))
           \<and> \<not> quality_evaluation_ran (snd (evaluate w repoUrl))"
  using assms
  by (simp add: evaluate_def evaluate_steps_def Let_def buildResponse_def checks_named_def
      quality_evaluation_ran_def collection_ran_def clone_trace files_trace pubget_trace
      build_trace test_trace collect_trace[unfolded collection_ran_def] str_eq_iff)

theorem empty_collection_ends_the_run_witness:
  "isValidGitHubUrl w_link url_ok
   \<and> fst (cloneRepository w_link url_ok) = Some ws_ok
   \<and> valid (fst (checkRequiredFiles w_link ws_ok))
   \<and> success (fst (runFlutterPubGet w_link ws_ok))
   \<and> success (fst (checkBuild w_link ws_ok))
   \<and> success (fst (runFlutterTest w_link ws_ok))
   \<and> fst (collectLibFiles w_link ws_ok) = []
   \<and> (\<exists>r. fst (evaluate w_link url_ok) = Inr r
           \<and> totalScore r = Num 5
           \<and> length (checks r) = 5
           \<and> checks_named (str ''Groq Code Evaluation'') r = []
           \<and> groqEvaluation (details r) = None
           \<and> collection_ran ws_ok (snd (evaluate w_link url_ok))
           \<and> \<not> quality_evaluation_ran (snd (evaluate w_link url_ok)))"
  using empty_collection_ends_the_run[of w_link url_ok ws_ok]
    variant_gates(7) variant_build(7) variant_collect(7)
  by simp

text \<open>
  The sentence of the specification, that the evaluator still runs when the collection
  is empty, does not hold: here \<open>lib/main.dart\<close> cannot be read, nothing is collected,
  and the response has neither a Groq check nor an evaluation record.
\<close>

theorem empty_collection_counterexample:
  "isValidGitHubUrl w_unreadable url_ok
   \<and> fst (cloneRepository w_unreadable url_ok) = Some ws_ok
   \<and> valid (fst (checkRequiredFiles w_unreadable ws_ok))
   \<and> success (fst (runFlutterPubGet w_unreadable ws_ok))
   \<and> success (fst (checkBuild w_unreadable ws_ok))
   \<and> fst (collectLibFiles w_unreadable ws_ok) = []
   \<and> \<not> quality_evaluation_ran (snd (evaluate w_unreadable url_ok))
   \<and> (\<exists>r. fst (evaluate w_unreadable url_ok) = Inr r
         \<and> checks_named (str ''Groq Code Evaluation'') r = []
         \<and> groqEvaluation (details r) = None)"
proof -
  have "snd (evaluate w_unreadable url_ok)
      = snd (cloneRepository w_unreadable url_ok)
        @ snd (checkRequiredFiles w_unreadable ws_ok)
        @ snd (runFlutterPubGet w_unreadable ws_ok)
        @ snd (checkBuild w_unreadable ws_ok)
        @ snd (runFlutterTest w_unreadable ws_ok)
        @ snd (collectLibFiles w_unreadable ws_ok) @ [FsRemove ws_ok]"
    using variant_gates(5) variant_build(5) variant_collect(5)
    by (simp add: evaluate_def evaluate_steps_def Let_def)
  then have "\<not> quality_evaluation_ran (snd (evaluate w_unreadable url_ok))"
    using quiet_until_collection[of w_unreadable url_ok ws_ok] variant_gates(5)
    by (simp add: quality_evaluation_ran_def)
  moreover have "\<exists>r. fst (evaluate w_unreadable url_ok) = Inr r
         \<and> checks_named (str ''Groq Code Evaluation'') r = []
         \<and> groqEvaluation (details r) = None"
    using variant_gates(5) variant_build(5) variant_collect(5)
    by (simp add: evaluate_def evaluate_steps_def Let_def buildResponse_def checks_named_def
        str_eq_iff)
  ultimately show ?thesis
    using variant_gates(5) variant_build(5) variant_collect(5) by simp
qed

text \<open>
  C8. The install stage succeeds exactly when \<open>flutter pub get\<close> ran to its end with
  exit status 0 and its stderr is empty or contains the text \<open>Warning\<close>; it fails when
  the command is rejected (a non-zero exit status, a time-out) and when stderr is not
  empty and does not contain \<open>Warning\<close>.
\<close>

theorem install_stage_outcome:
  "success (fst (runFlutterPubGet w repoPath))
     = (case exec w (str ''flutter pub get'') of
          Resolved out err \<Rightarrow> err = [] \<or> str_includes err (str ''Warning'')
        | Rejected m out err \<Rightarrow> False)"
  by (simp add: runFlutterPubGet_def split: exec_outcome.splits)

theorem install_stage_outcome_witness:
  "exec w_warns (str ''flutter pub get'')
     = Resolved [] (str ''Warning: lockfile is stale\<newline>version solving failed.'')
   \<and> success (fst (runFlutterPubGet w_warns ws_ok))
   \<and> exec w_install_fails (str ''flutter pub get'')
     = Rejected (str ''Command failed: flutter pub get'') [] []
   \<and> \<not> success (fst (runFlutterPubGet w_install_fails ws_ok))"
proof -
  have a: "exec w_warns (str ''flutter pub get'')
     = Resolved [] (str ''Warning: lockfile is stale\<newline>version solving failed.'')"
    by (simp add: w_warns_def)
  have b: "exec w_install_fails (str ''flutter pub get'')
     = Rejected (str ''Command failed: flutter pub get'') [] []"
    by (simp add: w_install_fails_def)
  have c: "str_includes (str ''Warning: lockfile is stale\<newline>version solving failed.'')
      (str ''Warning'')"
    by (simp add: str_def starts_with_def)
  from install_stage_outcome[of w_warns ws_ok] install_stage_outcome[of w_install_fails ws_ok]
    a b c
  show ?thesis
    by simp
qed

text \<open>
  The sentence of the specification does not hold in either direction: a command that
  exits with a failure and an empty stderr fails the stage, and a stderr that holds a
  warning and, on its next line, an error lets the stage succeed.
\<close>

theorem install_stage_counterexample:
  "exec w_install_fails (str ''flutter pub get'')
     = Rejected (str ''Command failed: flutter pub get'') [] []
   \<and> out_stderr (exec w_install_fails (str ''flutter pub get'')) = []
   \<and> \<not> success (fst (runFlutterPubGet w_install_fails ws_ok))
   \<and> out_stderr (exec w_warns (str ''flutter pub get''))
     = str ''Warning: lockfile is stale\<newline>version solving failed.''
   \<and> success (fst (runFlutterPubGet w_warns ws_ok))"
proof -
  have "str_includes (str ''Warning: lockfile is stale\<newline>version solving failed.'')
      (str ''Warning'')"
    by (simp add: str_def starts_with_def)
  then show ?thesis
    by (simp add: w_install_fails_def w_warns_def runFlutterPubGet_def)
qed

text \<open>
  C9. On the two return paths that read the model's reply (the parsed reply and the
  search for a score in a reply that is not JSON) the result is within the caps
  (\<open>groq_try_caps\<close>). The \<open>catch\<close> path does not cut its summary: with the message of
  Groq's rate limiter, 309 characters long, the summary of the result, and of the
  evaluation record of the response, has 328 characters.
\<close>

theorem failure_summary_exceeds_cap:
  "http_post w_rate_limited groqApiUrl prompt
     = HttpError (str ''Request failed with status code 429'')
         (Some (JObject [(str ''error'', JObject [(str ''message'', JString rate_limit_message)])]))
   \<and> length rate_limit_message = 309
   \<and> (\<exists>g. fst (evaluateWithGroq w_rate_limited files (Num 15)) = Inr g
         \<and> eval_score g = Num 0
         \<and> length (eval_summary g) = 328
         \<and> \<not> within_caps g)
   \<and> (\<exists>r g. fst (evaluate w_rate_limited url_ok) = Inr r
         \<and> groqEvaluation (details r) = Some g
         \<and> length (eval_summary g) = 328
         \<and> \<not> within_caps g)"
proof -
  have post: "http_post w_rate_limited groqApiUrl p
     = HttpError (str ''Request failed with status code 429'')
         (Some (JObject [(str ''error'', JObject [(str ''message'', JString rate_limit_message)])]))"
    for p
    by (simp add: w_rate_limited_def)
  have len: "length rate_limit_message = 309"
    by (simp add: rate_limit_message_def length_str)
  then have ne: "rate_limit_message \<noteq> []"
    by auto
  have g: "fst (evaluateWithGroq w_rate_limited fs (Num 15))
     = Inr \<lparr>eval_score = Num 0,
            eval_summary = str ''Evaluation failed: '' @ rate_limit_message,
            strengths = [], weaknesses = [], recommendations = []\<rparr>" for fs
    using evaluateWithGroq_with_key(1)[OF variant_key(3) variant_key(5)] ne
    by (simp add: groq_try_def post failure_text_plain)
  have "\<exists>r g. fst (evaluate w_rate_limited url_ok) = Inr r
         \<and> groqEvaluation (details r) = Some g
         \<and> length (eval_summary g) = 328
         \<and> \<not> within_caps g"
    using variant_gates(6) variant_build(6) variant_collect(6) g len
    by (simp add: evaluate_def evaluate_steps_def Let_def buildResponse_def js_sub_def
        length_str within_caps_def)
  with post g len show ?thesis
    by (simp add: length_str within_caps_def)
qed

text \<open>
  C10. In every response that \<open>evaluate\<close> returns, a check named \<open>Groq Code Evaluation\<close>
  has \<open>passed = true\<close> and the message \<open>Code evaluated by Groq\<close>; and when the evaluator
  was run, the response has an evaluation record and exactly one such check, the last of
  the list, whose score is that of the record. This holds whatever the POST answered:
  only the score and the summary tell a failed call from a successful one.
\<close>

theorem groq_check_always_passed:
  assumes "fst (evaluate w repoUrl) = Inr r"
  shows "list_all (\<lambda>c. passed c \<and> message c = Some (str ''Code evaluated by Groq''))
           (checks_named (str ''Groq Code Evaluation'') r)
       \<and> (quality_evaluation_ran (snd (evaluate w repoUrl)) \<longrightarrow>
            (\<exists>g. groqEvaluation (details r) = Some g
               \<and> checks_named (str ''Groq Code Evaluation'') r
                   = [\<lparr>name = str ''Groq Code Evaluation'', passed = True,
                       message = Some (str ''Code evaluated by Groq''), score = eval_score g\<rparr>]
               \<and> last (checks r)
                   = \<lparr>name = str ''Groq Code Evaluation'', passed = True,
                      message = Some (str ''Code evaluated by Groq''), score = eval_score g\<rparr>))"
proof (cases "fst (cloneRepository w repoUrl)")
  case None
  with assms show ?thesis
    by (auto simp: evaluate_def buildResponse_def checks_named_def quality_evaluation_ran_def
        clone_quiet str_eq_iff split: if_splits)
next
  case (Some p)
  let ?files = "fst (collectLibFiles w p)"
  let ?m = "Num (20 - (if success (fst (runFlutterTest w p)) then 5 else 0))"
  from assms Some have valid: "isValidGitHubUrl w repoUrl"
    and steps: "fst (evaluate_steps w p) = Inr r"
    by (auto simp: evaluate_def split: if_splits sum.splits)
  from valid Some have trace: "quality_evaluation_ran (snd (evaluate w repoUrl))
      = list_ex quality_call (snd (evaluate_steps w p))"
    by (simp add: evaluate_def quality_evaluation_ran_def clone_quiet)
  show ?thesis
  proof (cases "valid (fst (checkRequiredFiles w p)) \<and> success (fst (runFlutterPubGet w p))
      \<and> success (fst (checkBuild w p)) \<and> ?files \<noteq> []")
    case False
    with steps have "checks_named (str ''Groq Code Evaluation'') r = []"
      by (auto simp: evaluate_steps_def Let_def buildResponse_def checks_named_def str_eq_iff
          split: if_splits)
    moreover from False have "\<not> list_ex quality_call (snd (evaluate_steps w p))"
      by (auto simp: evaluate_steps_def Let_def files_trace pubget_trace build_trace test_trace
          collect_trace)
    ultimately show ?thesis
      using trace by simp
  next
    case True
    with steps obtain g where g: "fst (evaluateWithGroq w ?files ?m) = Inr g"
      by (cases "fst (evaluateWithGroq w ?files ?m)")
         (simp_all add: evaluate_steps_def Let_def budget_after_tests)
    from steps True g show ?thesis
      by (auto simp: evaluate_steps_def Let_def buildResponse_def budget_after_tests
          checks_named_def str_eq_iff)
  qed
qed

theorem groq_check_always_passed_witness:
  "\<exists>r. fst (evaluate w_llm_down url_ok) = Inr r
      \<and> quality_evaluation_ran (snd (evaluate w_llm_down url_ok))
      \<and> list_all (\<lambda>c. passed c \<and> message c = Some (str ''Code evaluated by Groq''))
           (checks_named (str ''Groq Code Evaluation'') r)
      \<and> (\<exists>g. groqEvaluation (details r) = Some g
            \<and> eval_score g = Num 0
            \<and> eval_summary g = str ''Evaluation failed: Network Error''
            \<and> checks_named (str ''Groq Code Evaluation'') r
                = [\<lparr>name = str ''Groq Code Evaluation'', passed = True,
                    message = Some (str ''Code evaluated by Groq''), score = eval_score g\<rparr>]
            \<and> last (checks r)
                = \<lparr>name = str ''Groq Code Evaluation'', passed = True,
                   message = Some (str ''Code evaluated by Groq''), score = eval_score g\<rparr>)"
proof -
  have post: "http_post w_llm_down groqApiUrl p = HttpError (str ''Network Error'') None" for p
    by (simp add: w_llm_down_def)
  have s: "str ''Evaluation failed: '' @ str ''Network Error''
      = str ''Evaluation failed: Network Error''"
    by (simp add: str_def)
  have g: "fst (evaluateWithGroq w_llm_down fs m)
      = Inr \<lparr>eval_score = Num 0, eval_summary = str ''Evaluation failed: Network Error'',
             strengths = [], weaknesses = [], recommendations = []\<rparr>" for fs m
    using evaluateWithGroq_with_key(1)[OF variant_key(1) variant_key(5)]
    by (simp add: groq_try_def post failure_text_plain s)
  have ran: "quality_evaluation_ran (snd (evaluate w_llm_down url_ok))"
    using variant_gates(1) variant_build(1) variant_collect(1)
      evaluateWithGroq_with_key(2)[OF variant_key(1) variant_key(5)] g
    by (simp add: evaluate_def evaluate_steps_def Let_def quality_evaluation_ran_def)
  obtain r where r: "fst (evaluate w_llm_down url_ok) = Inr r"
      "\<exists>g. groqEvaluation (details r) = Some g \<and> eval_score g = Num 0
          \<and> eval_summary g = str ''Evaluation failed: Network Error''"
    using variant_gates(1) variant_build(1) variant_collect(1) g
    by (simp add: evaluate_def evaluate_steps_def Let_def buildResponse_def js_sub_def)
  from groq_check_always_passed[OF r(1)] ran r show ?thesis
    by auto
qed

end
